theory Spec2Isabelle
  imports Main "HOL-Library.Word"
begin

section \<open>JavaScript values\<close>

text \<open>
  The proxy server (the file that starts with \<^verbatim>\<open>const express = require('express')\<close>) is
  JavaScript. A JavaScript string is a sequence of UTF-16 code units, and \<^verbatim>\<open>length\<close>
  counts code units, so a string is a list of 16-bit words. \<open>str\<close> turns an ASCII
  literal of the source into such a string.
\<close>

type_synonym jschar = "16 word"
type_synonym jsstring = "jschar list"

definition str :: "string \<Rightarrow> jsstring" where
  "str s = map of_char s"

text \<open>
  Values as \<^verbatim>\<open>JSON.parse\<close> and the drivers produce them. Numbers are modelled as
  integers (row counts and limits are all the server inspects). An object is the list of
  its own enumerable properties in the engine's property order, keys distinct, so that
  \<^verbatim>\<open>Object.keys\<close> is the list of first components.
\<close>

datatype jsval =
    JUndefined
  | JNull
  | JBool bool
  | JNum int
  | JStr jsstring
  | JArr "jsval list"
  | JObj "(jsstring \<times> jsval) list"

type_synonym jsobj = "(jsstring \<times> jsval) list"

text \<open>ToBoolean: what \<^verbatim>\<open>!x\<close>, \<^verbatim>\<open>x ? a : b\<close>, \<^verbatim>\<open>x || y\<close> and \<^verbatim>\<open>x && y\<close> test.\<close>

fun truthy :: "jsval \<Rightarrow> bool" where
  "truthy JUndefined = False"
| "truthy JNull = False"
| "truthy (JBool b) = b"
| "truthy (JNum n) = (n \<noteq> 0)"
| "truthy (JStr s) = (s \<noteq> [])"
| "truthy (JArr xs) = True"
| "truthy (JObj kvs) = True"

text \<open>\<^verbatim>\<open>a || b\<close> on values: the first operand when it is truthy, else the second.\<close>

definition js_or :: "jsval \<Rightarrow> jsval \<Rightarrow> jsval" where
  "js_or a b = (if truthy a then a else b)"

text \<open>\<^verbatim>\<open>ob.k\<close> for an object: the property's value, \<^verbatim>\<open>undefined\<close> when it has none.\<close>

definition field :: "jsobj \<Rightarrow> jsstring \<Rightarrow> jsval" where
  "field ob k = (case map_of ob k of Some v \<Rightarrow> v | None \<Rightarrow> JUndefined)"

definition Object_keys :: "jsobj \<Rightarrow> jsstring list" where
  "Object_keys ob = map fst ob"

subsection \<open>String operations\<close>

text \<open>
  \<^verbatim>\<open>String.prototype.trim\<close> removes WhiteSpace and LineTerminator code units from both
  ends: TAB, LF, VT, FF, CR, SP, NBSP, U+1680, U+2000..U+200A, U+2028, U+2029, U+202F,
  U+205F, U+3000 and U+FEFF.
\<close>

definition isWhiteSpace :: "jschar \<Rightarrow> bool" where
  "isWhiteSpace c =
     (c \<in> set [0x9, 0xA, 0xB, 0xC, 0xD, 0x20, 0xA0, 0x1680, 0x2028, 0x2029, 0x202F,
               0x205F, 0x3000, 0xFEFF]
      \<or> (0x2000 \<le> c \<and> c \<le> 0x200A))"

definition trim :: "jsstring \<Rightarrow> jsstring" where
  "trim s = rev (dropWhile isWhiteSpace (rev (dropWhile isWhiteSpace s)))"

fun startsWith :: "'a list \<Rightarrow> 'a list \<Rightarrow> bool" where
  "startsWith s [] = True"
| "startsWith [] (p # ps) = False"
| "startsWith (c # cs) (p # ps) = (c = p \<and> startsWith cs ps)"

text \<open>\<^verbatim>\<open>s.includes(t)\<close>: \<open>t\<close> occurs in \<open>s\<close> as a contiguous run.\<close>

fun js_includes :: "'a list \<Rightarrow> 'a list \<Rightarrow> bool" where
  "js_includes [] t = (t = [])"
| "js_includes (c # cs) t = (startsWith (c # cs) t \<or> js_includes cs t)"

text \<open>Decimal digits of a natural number, as a template literal prints it.\<close>

fun digits :: "nat \<Rightarrow> jsstring" where
  "digits n = (if n < 10 then [of_nat (48 + n)]
               else digits (n div 10) @ [of_nat (48 + n mod 10)])"

declare digits.simps [simp del]

text \<open>\<^verbatim>\<open>arr.join(sep)\<close> on strings.\<close>

fun join :: "jsstring list \<Rightarrow> jsstring \<Rightarrow> jsstring" where
  "join [] sep = []"
| "join [s] sep = s"
| "join (s # t # ss) sep = s @ sep @ join (t # ss) sep"

text \<open>
  ToString, as a template literal applies it to an interpolated value. An array prints
  its elements joined by commas, \<^verbatim>\<open>null\<close> and \<^verbatim>\<open>undefined\<close> elements as nothing; a
  plain object prints as \<^verbatim>\<open>[object Object]\<close>. (Integers of 22 digits and more print in
  exponent form in JavaScript, and an object with a property of its own called
  \<^verbatim>\<open>toString\<close> or \<^verbatim>\<open>valueOf\<close> does not print this way; both are outside this model.)
\<close>

fun toString :: "jsval \<Rightarrow> jsstring" where
  "toString JUndefined = str ''undefined''"
| "toString JNull = str ''null''"
| "toString (JBool b) = (if b then str ''true'' else str ''false'')"
| "toString (JNum n) = (if n < 0 then str ''-'' @ digits (nat (- n)) else digits (nat n))"
| "toString (JStr s) = s"
| "toString (JArr xs) =
     join (map (\<lambda>x. if x = JNull \<or> x = JUndefined then [] else toString x) xs) (str '','')"
| "toString (JObj kvs) = str ''[object Object]''"

subsection \<open>Errors, promises and the timeout race\<close>

text \<open>
  A thrown \<^verbatim>\<open>Error\<close>: its message and, for driver errors, its \<^verbatim>\<open>code\<close> property.
\<close>

record jserror =
  message :: jsstring
  code :: "jsstring option"

definition Error :: "jsstring \<Rightarrow> jserror" where
  "Error m = \<lparr>message = m, code = None\<rparr>"

text \<open>
  A promise returned by a driver call either settles after some number of milliseconds,
  fulfilled (\<open>Inr\<close>) or rejected (\<open>Inl\<close>), or never settles. Awaiting it gives a value,
  throws, or leaves the handler suspended for ever (\<open>Pending\<close>).
\<close>

datatype 'a promise = Settles nat "jserror + 'a" | Never

datatype 'a completion = Returns 'a | Throws jserror | Pending

fun await :: "'a promise \<Rightarrow> 'a completion" where
  "await (Settles t (Inr v)) = Returns v"
| "await (Settles t (Inl e)) = Throws e"
| "await Never = Pending"

text \<open>
  \<^verbatim>\<open>withTimeout\<close>: \<^verbatim>\<open>Promise.race\<close> of the promise and a timer that rejects after
  \<open>timeoutMs\<close>. The promise wins when it settles before the timer fires.
\<close>

definition withTimeout :: "'a promise \<Rightarrow> nat \<Rightarrow> jsstring \<Rightarrow> 'a promise" where
  "withTimeout promise timeoutMs errorMessage =
     (let timer = Settles timeoutMs
            (Inl (Error (if errorMessage \<noteq> [] then errorMessage
                         else str ''Query timeout after '' @ digits timeoutMs @ str ''ms'')))
      in case promise of
           Settles t r \<Rightarrow> if t < timeoutMs then Settles t r else timer
         | Never \<Rightarrow> timer)"

section \<open>Configuration\<close>

definition queryTimeout :: nat where
  "queryTimeout = 30000"

definition maxResultRows :: nat where
  "maxResultRows = 1000"

section \<open>Query validation\<close>

text \<open>
  \<^verbatim>\<open>validateQuery\<close>. The first test rejects every falsy value and every value that is
  not a string; the length test is on the trimmed string. \<open>dbType\<close> is not used.
\<close>

definition validateQuery :: "jsval \<Rightarrow> jsstring \<Rightarrow> jserror + jsstring" where
  "validateQuery query dbType =
     (case query of
        JStr s \<Rightarrow>
          if \<not> truthy query then Inl (Error (str ''Query must be a non-empty string''))
          else
            let trimmedQuery = trim s in
            if length trimmedQuery = 0 then Inl (Error (str ''Query cannot be empty''))
            else if length trimmedQuery > 50000
              then Inl (Error (str ''Query is too long (max 50000 characters)''))
            else Inr trimmedQuery
      | _ \<Rightarrow> Inl (Error (str ''Query must be a non-empty string'')))"

text \<open>
  \<^verbatim>\<open>parseMongoQuery\<close>. \<open>JSON_parse\<close> is the engine's \<^verbatim>\<open>JSON.parse\<close>, \<open>None\<close> when it
  throws. Reading \<^verbatim>\<open>collection\<close> off a parsed \<^verbatim>\<open>null\<close> throws a TypeError; a parsed
  number, string, boolean or array has no such property. An operation is checked against
  the list only when it is truthy.
\<close>

definition validOperations :: "jsstring list" where
  "validOperations = map str [''find'', ''findOne'', ''insertOne'', ''insertMany'',
     ''updateOne'', ''updateMany'', ''deleteOne'', ''deleteMany'', ''countDocuments'',
     ''aggregate'']"

definition parseMongoQuery :: "(jsstring \<Rightarrow> jsval option) \<Rightarrow> jsstring \<Rightarrow> jserror + jsobj" where
  "parseMongoQuery JSON_parse query =
     (case JSON_parse query of
        None \<Rightarrow> Inl (Error (str ''Invalid MongoDB query format: Expected valid JSON''))
      | Some JNull \<Rightarrow>
          Inl (Error (str ''Cannot read properties of null (reading 'collection')''))
      | Some JUndefined \<Rightarrow>
          Inl (Error (str ''Cannot read properties of undefined (reading 'collection')''))
      | Some (JObj mongoQuery) \<Rightarrow>
          if \<not> truthy (field mongoQuery (str ''collection''))
            then Inl (Error (str ''MongoDB query must specify a collection''))
          else
            let operation = field mongoQuery (str ''operation'') in
            if truthy operation \<and> operation \<notin> set (map JStr validOperations)
              then Inl (Error (str ''Invalid MongoDB operation: '' @ toString operation
                     @ str ''. Valid operations: '' @ join validOperations (str '', '')))
            else Inr mongoQuery
      | Some other \<Rightarrow> Inl (Error (str ''MongoDB query must specify a collection'')))"

section \<open>Drivers and the connection registry\<close>

text \<open>
  What the database drivers hand back. A node-postgres result has \<^verbatim>\<open>rows\<close>,
  \<^verbatim>\<open>fields\<close> and \<^verbatim>\<open>rowCount\<close>; the server itself allows for a missing \<^verbatim>\<open>rows\<close> or
  \<^verbatim>\<open>fields\<close> (here \<open>fields'\<close>). A mysql2 result is the pair \<^verbatim>\<open>[rows, fields]\<close>, whose first part is an
  array of rows, a result header object (for a write), or neither.
\<close>

record pg_result =
  rows :: "jsobj list option"
  fields' :: "jsobj list option"
  rowCount :: jsval

datatype mysql_rows = RowArray "jsobj list" | Packet jsobj | NoRows

text \<open>
  A pooled handle is a JavaScript object; its number stands for its identity (two handles
  are the same instance when they have the same number).
\<close>

datatype handle = PostgresPool nat | MySQLPool nat | MongoClient nat

text \<open>The collection methods the query route calls, with their arguments.\<close>

datatype mongo_call =
    Find jsval jsval "int option"
  | FindOne jsval jsval
  | InsertOne jsval jsval
  | InsertMany jsval jsval
  | UpdateOne jsval jsval jsval
  | UpdateMany jsval jsval jsval
  | DeleteOne jsval jsval
  | DeleteMany jsval jsval
  | CountDocuments jsval jsval
  | Aggregate jsval jsval

text \<open>The driver calls a request makes, in order.\<close>

datatype event =
    NewPool jsstring
  | CreatePool jsstring
  | NewMongoClient jsstring
  | Connect handle
  | Close handle
  | Query handle jsstring
  | Execute handle jsstring
  | GetCollection handle jsval
  | Call handle mongo_call

text \<open>
  Everything outside the server that one request meets: the engine's \<^verbatim>\<open>JSON.parse\<close>
  and string-to-number conversion, \<^verbatim>\<open>NODE_ENV\<close>, the two readings of \<^verbatim>\<open>Date.now()\<close>,
  and the behaviour of each driver call. A constructor either throws or succeeds.
\<close>

record env =
  JSON_parse :: "jsstring \<Rightarrow> jsval option"
  StringToNumber :: "jsstring \<Rightarrow> int option"
  NODE_ENV :: "jsstring option"
  now_start :: int
  now_done :: int
  new_Pool :: "jsstring \<Rightarrow> jserror option"
  createPool :: "jsstring \<Rightarrow> jserror option"
  new_MongoClient :: "jsstring \<Rightarrow> jserror option"
  pool_query :: "handle \<Rightarrow> jsstring \<Rightarrow> pg_result promise"
  pool_execute :: "handle \<Rightarrow> jsstring \<Rightarrow> (mysql_rows \<times> jsobj list option) promise"
  client_connect :: "handle \<Rightarrow> unit promise"
  client_close :: "handle \<Rightarrow> unit promise"
  db_collection :: "handle \<Rightarrow> jsval \<Rightarrow> jserror option"
  cursor_toArray :: "handle \<Rightarrow> mongo_call \<Rightarrow> jsobj list promise"
  collection_findOne :: "handle \<Rightarrow> mongo_call \<Rightarrow> jsobj option promise"
  collection_write :: "handle \<Rightarrow> mongo_call \<Rightarrow> jsobj promise"
  collection_countDocuments :: "handle \<Rightarrow> mongo_call \<Rightarrow> int promise"

text \<open>
  The two module-level maps \<^verbatim>\<open>pools\<close> (shared by PostgreSQL and MySQL) and
  \<^verbatim>\<open>mongoClients\<close>, keyed by connection string; \<open>allocated\<close> counts the handles created
  so far and numbers the next one.
\<close>

record registry =
  pools :: "jsstring \<rightharpoonup> handle"
  mongoClients :: "jsstring \<rightharpoonup> handle"
  allocated :: nat

definition getDatabaseType :: "jsstring \<Rightarrow> jsstring" where
  "getDatabaseType connectionString =
     (if startsWith connectionString (str ''postgresql://'')
         \<or> startsWith connectionString (str ''postgres://'') then str ''postgres''
      else if startsWith connectionString (str ''mysql://'') then str ''mysql''
      else if startsWith connectionString (str ''mongodb://'')
         \<or> startsWith connectionString (str ''mongodb+srv://'') then str ''mongodb''
      else str ''postgres'')"

definition getPostgresPool ::
  "env \<Rightarrow> jsstring \<Rightarrow> registry \<Rightarrow> (jserror + handle) \<times> registry \<times> event list" where
  "getPostgresPool env connectionString R =
     (case pools R connectionString of
        Some pool \<Rightarrow> (Inr pool, R, [])
      | None \<Rightarrow>
          (case new_Pool env connectionString of
             Some e \<Rightarrow> (Inl e, R, [NewPool connectionString])
           | None \<Rightarrow>
               let pool = PostgresPool (allocated R) in
               (Inr pool,
                R\<lparr>pools := (pools R)(connectionString \<mapsto> pool), allocated := Suc (allocated R)\<rparr>,
                [NewPool connectionString])))"

definition getMySQLPool ::
  "env \<Rightarrow> jsstring \<Rightarrow> registry \<Rightarrow> (jserror + handle) \<times> registry \<times> event list" where
  "getMySQLPool env connectionString R =
     (case pools R connectionString of
        Some pool \<Rightarrow> (Inr pool, R, [])
      | None \<Rightarrow>
          (case createPool env connectionString of
             Some e \<Rightarrow> (Inl e, R, [CreatePool connectionString])
           | None \<Rightarrow>
               let pool = MySQLPool (allocated R) in
               (Inr pool,
                R\<lparr>pools := (pools R)(connectionString \<mapsto> pool), allocated := Suc (allocated R)\<rparr>,
                [CreatePool connectionString])))"

text \<open>
  \<^verbatim>\<open>getMongoClient\<close> is an \<^verbatim>\<open>async\<close> function with one suspension point,
  \<^verbatim>\<open>await client.connect()\<close>, between the test \<^verbatim>\<open>mongoClients.has\<close> and the
  \<^verbatim>\<open>mongoClients.set\<close>. It is modelled as the two parts around that point. The first
  part runs to the \<^verbatim>\<open>await\<close>, or finishes before it (the string is cached, or the
  constructor throws). The second part runs when the promise of \<^verbatim>\<open>connect()\<close> has
  settled, on the registry as it is by then: it caches the client, or throws and leaves the
  map as it is. Other requests can run between the two parts.
\<close>

datatype lookup_step = Finished "handle completion" | AwaitingConnect handle

definition getMongoClient_start ::
  "env \<Rightarrow> jsstring \<Rightarrow> registry \<Rightarrow> lookup_step \<times> registry \<times> event list" where
  "getMongoClient_start env connectionString R =
     (case mongoClients R connectionString of
        Some client \<Rightarrow> (Finished (Returns client), R, [])
      | None \<Rightarrow>
          (case new_MongoClient env connectionString of
             Some e \<Rightarrow> (Finished (Throws e), R, [NewMongoClient connectionString])
           | None \<Rightarrow>
               let client = MongoClient (allocated R) in
               (AwaitingConnect client, R\<lparr>allocated := Suc (allocated R)\<rparr>,
                [NewMongoClient connectionString, Connect client])))"

definition getMongoClient_resume ::
  "env \<Rightarrow> jsstring \<Rightarrow> handle \<Rightarrow> registry \<Rightarrow> handle completion \<times> registry" where
  "getMongoClient_resume env connectionString client R =
     (case await (client_connect env client) of
        Returns u \<Rightarrow>
          (Returns client,
           R\<lparr>mongoClients := (mongoClients R)(connectionString \<mapsto> client)\<rparr>)
      | Throws e \<Rightarrow> (Throws e, R)
      | Pending \<Rightarrow> (Pending, R))"

text \<open>A lookup during which no other request runs: the second part follows the first.\<close>

definition getMongoClient ::
  "env \<Rightarrow> jsstring \<Rightarrow> registry \<Rightarrow> handle completion \<times> registry \<times> event list" where
  "getMongoClient env connectionString R =
     (case getMongoClient_start env connectionString R of
        (Finished c, R1, calls) \<Rightarrow> (c, R1, calls)
      | (AwaitingConnect client, R1, calls) \<Rightarrow>
          (case getMongoClient_resume env connectionString client R1 of
             (c, R2) \<Rightarrow> (c, R2, calls)))"

text \<open>
  \<^verbatim>\<open>closeMongoClient\<close>: an error of \<^verbatim>\<open>close()\<close> is logged and dropped, and the entry
  is deleted either way. It completes unless \<^verbatim>\<open>close()\<close> never settles.
\<close>

definition closeMongoClient ::
  "env \<Rightarrow> jsstring \<Rightarrow> registry \<Rightarrow> unit completion \<times> registry \<times> event list" where
  "closeMongoClient env connectionString R =
     (case mongoClients R connectionString of
        None \<Rightarrow> (Returns (), R, [])
      | Some client \<Rightarrow>
          (case await (client_close env client) of
             Pending \<Rightarrow> (Pending, R, [Close client])
           | settled \<Rightarrow>
               (Returns (),
                R\<lparr>mongoClients := (mongoClients R)(connectionString := None)\<rparr>,
                [Close client])))"

section \<open>The query route\<close>

text \<open>An HTTP response: the status and the object given to \<^verbatim>\<open>res.json\<close>.\<close>

datatype reply = Reply nat jsval

text \<open>
  The outer \<^verbatim>\<open>catch\<close> of \<^verbatim>\<open>/api/query\<close>: the error is classified by its message and
  code and answered with status 500.
\<close>

definition errorReply :: "env \<Rightarrow> jserror \<Rightarrow> reply" where
  "errorReply env error =
     (let (errorMessage, errorCode) =
        (if js_includes (message error) (str ''timeout'') then
           (str ''Query execution timed out after '' @ digits (queryTimeout div 1000)
              @ str '' seconds. Try simplifying your query or adding LIMIT.'',
            str ''TIMEOUT'')
         else if code error = Some (str ''42P01'')
              \<or> js_includes (message error) (str ''does not exist'') then
           (str ''Table or column does not exist. Please check your query.'',
            str ''NOT_FOUND'')
         else if code error = Some (str ''42601'')
              \<or> js_includes (message error) (str ''syntax error'') then
           (str ''SQL syntax error: '' @ message error, str ''SYNTAX_ERROR'')
         else if js_includes (message error) (str ''permission denied'') then
           (str ''Permission denied. You may not have access to perform this operation.'',
            str ''PERMISSION_DENIED'')
         else (message error, str ''QUERY_ERROR''))
      in Reply 500 (JObj
           [(str ''success'', JBool False),
            (str ''error'', JStr errorMessage),
            (str ''errorCode'', JStr errorCode),
            (str ''originalError'',
               if NODE_ENV env = Some (str ''development'') then JStr (message error)
               else JUndefined)]))"

subsection \<open>PostgreSQL\<close>

text \<open>The response built from a node-postgres result: at most \<open>maxResultRows\<close> rows.\<close>

definition postgresReply :: "env \<Rightarrow> pg_result \<Rightarrow> reply" where
  "postgresReply env result =
     (let duration = now_done env - now_start env;
          rows = (case rows result of Some rs \<Rightarrow> rs | None \<Rightarrow> []);
          limitedRows = take maxResultRows rows;
          hasMore = (length rows > maxResultRows)
      in Reply 200 (JObj
           [(str ''success'', JBool True),
            (str ''rows'', JArr (map JObj limitedRows)),
            (str ''columns'',
               (case fields' result of
                  Some fs \<Rightarrow> JArr (map (\<lambda>f. field f (str ''name'')) fs)
                | None \<Rightarrow> JArr [])),
            (str ''rowCount'', rowCount result),
            (str ''executionTime'', JNum duration),
            (str ''dbType'', JStr (str ''postgres'')),
            (str ''hasMore'', JBool hasMore),
            (str ''totalRows'', JNum (int (length rows)))]))"

definition postgresCase ::
  "env \<Rightarrow> jsstring \<Rightarrow> jsstring \<Rightarrow> registry \<Rightarrow> reply completion \<times> registry \<times> event list" where
  "postgresCase env connectionString validatedQuery R =
     (case getPostgresPool env connectionString R of
        (Inl e, R1, calls) \<Rightarrow> (Throws e, R1, calls)
      | (Inr pgPool, R1, calls) \<Rightarrow>
          (map_completion (postgresReply env)
             (await (withTimeout (pool_query env pgPool validatedQuery) queryTimeout
                       (str ''PostgreSQL query timeout''))),
           R1, calls @ [Query pgPool validatedQuery]))"

subsection \<open>MySQL\<close>

text \<open>
  The response built from a mysql2 result \<^verbatim>\<open>[rows, fields]\<close>: an array of rows is cut
  to \<open>maxResultRows\<close>; a result header (a write) is reported as the one row.
\<close>

definition mysqlReply :: "env \<Rightarrow> mysql_rows \<times> jsobj list option \<Rightarrow> reply" where
  "mysqlReply env mysqlResult =
     (let mysqlDuration = now_done env - now_start env;
          mysqlRowsRaw = fst mysqlResult;
          mysqlFields = snd mysqlResult;
          (normalizedRows, columns, rowCount) =
            (case mysqlRowsRaw of
               RowArray rs \<Rightarrow>
                 (take maxResultRows rs,
                  (case mysqlFields of
                     Some fs \<Rightarrow> map (\<lambda>f. field f (str ''name'')) fs
                   | None \<Rightarrow>
                       (case take maxResultRows rs of
                          r # rest \<Rightarrow> map JStr (Object_keys r)
                        | [] \<Rightarrow> [])),
                  JNum (int (length rs)))
             | Packet header \<Rightarrow>
                 ([header],
                  map JStr (Object_keys header),
                  (case field header (str ''affectedRows'') of
                     JNum n \<Rightarrow> JNum n
                   | other \<Rightarrow> JNum 1))
             | NoRows \<Rightarrow> ([], [], JNum 0))
      in Reply 200 (JObj
           [(str ''success'', JBool True),
            (str ''rows'', JArr (map JObj normalizedRows)),
            (str ''columns'', JArr columns),
            (str ''rowCount'', rowCount),
            (str ''executionTime'', JNum mysqlDuration),
            (str ''dbType'', JStr (str ''mysql'')),
            (str ''hasMore'',
               JBool (case mysqlRowsRaw of
                        RowArray rs \<Rightarrow> length rs > maxResultRows
                      | other \<Rightarrow> False))]))"

text \<open>
  \<^verbatim>\<open>pools\<close> is shared with PostgreSQL, so the handle found may be a node-postgres pool,
  which has no \<^verbatim>\<open>execute\<close> method: the call throws a TypeError.
\<close>

definition mysqlCase ::
  "env \<Rightarrow> jsstring \<Rightarrow> jsstring \<Rightarrow> registry \<Rightarrow> reply completion \<times> registry \<times> event list" where
  "mysqlCase env connectionString validatedQuery R =
     (case getMySQLPool env connectionString R of
        (Inl e, R1, calls) \<Rightarrow> (Throws e, R1, calls)
      | (Inr (PostgresPool n), R1, calls) \<Rightarrow>
          (Throws (Error (str ''mysqlPool.execute is not a function'')), R1, calls)
      | (Inr mysqlPool, R1, calls) \<Rightarrow>
          (map_completion (mysqlReply env)
             (await (withTimeout (pool_execute env mysqlPool validatedQuery) queryTimeout
                       (str ''MySQL query timeout''))),
           R1, calls @ [Execute mysqlPool validatedQuery]))"

subsection \<open>MongoDB\<close>

text \<open>
  ToNumber and \<^verbatim>\<open>Math.min\<close>, for the limit of \<^verbatim>\<open>find\<close>; \<open>None\<close> is \<^verbatim>\<open>NaN\<close>.
\<close>

definition ToNumber :: "env \<Rightarrow> jsval \<Rightarrow> int option" where
  "ToNumber env v =
     (case v of
        JUndefined \<Rightarrow> None
      | JNull \<Rightarrow> Some 0
      | JBool b \<Rightarrow> Some (if b then 1 else 0)
      | JNum n \<Rightarrow> Some n
      | JStr s \<Rightarrow> StringToNumber env s
      | JArr xs \<Rightarrow> StringToNumber env (toString v)
      | JObj kvs \<Rightarrow> StringToNumber env (toString v))"

definition Math_min :: "int option \<Rightarrow> int option \<Rightarrow> int option" where
  "Math_min a b = (case (a, b) of (Some x, Some y) \<Rightarrow> Some (min x y) | other \<Rightarrow> None)"

text \<open>
  \<open>mongoResult\<close> is an array of documents (\<^verbatim>\<open>find\<close>, \<^verbatim>\<open>findOne\<close>,
  \<^verbatim>\<open>countDocuments\<close>, \<^verbatim>\<open>aggregate\<close>) or the driver's result object of a write.
\<close>

datatype mongo_result = ResultArray "jsobj list" | ResultObject jsobj

text \<open>
  The \<^verbatim>\<open>switch\<close> on the operation. Only \<^verbatim>\<open>find\<close> and \<^verbatim>\<open>findOne\<close> go through
  \<^verbatim>\<open>withTimeout\<close>; the other operations await the driver's promise itself.
\<close>

definition mongoOperation ::
  "env \<Rightarrow> handle \<Rightarrow> jsobj \<Rightarrow> mongo_result completion \<times> event list" where
  \<open>mongoOperation env client mongoQuery =
     (let collection = field mongoQuery (str ''collection'');
          filter = js_or (field mongoQuery (str ''filter'')) (JObj []);
          operation = js_or (field mongoQuery (str ''operation'')) (JStr (str ''find''))
      in
      if operation = JStr (str ''find'') then
        (let call = Find collection filter
               (Math_min (ToNumber env (js_or (field mongoQuery (str ''limit'')) (JNum 100)))
                  (Some (int maxResultRows)))
         in (map_completion ResultArray
               (await (withTimeout (cursor_toArray env client call) queryTimeout
                         (str ''MongoDB query timeout''))),
             [Call client call]))
      else if operation = JStr (str ''findOne'') then
        (let call = FindOne collection filter
         in (map_completion
               (\<lambda>doc. ResultArray (case doc of Some d \<Rightarrow> [d] | None \<Rightarrow> []))
               (await (withTimeout (collection_findOne env client call) queryTimeout
                         (str ''MongoDB query timeout''))),
             [Call client call]))
      else if operation = JStr (str ''insertOne'') then
        (if \<not> truthy (field mongoQuery (str ''document'')) then
           (Throws (Error (str ''insertOne requires a "document" field'')), [])
         else
           (let call = InsertOne collection (field mongoQuery (str ''document''))
            in (map_completion ResultObject (await (collection_write env client call)),
                [Call client call])))
      else if operation = JStr (str ''insertMany'') then
        (if \<not> truthy (field mongoQuery (str ''documents''))
            \<or> \<not> (case field mongoQuery (str ''documents'') of JArr ds \<Rightarrow> True | other \<Rightarrow> False)
         then (Throws (Error (str ''insertMany requires a "documents" array'')), [])
         else
           (let call = InsertMany collection (field mongoQuery (str ''documents''))
            in (map_completion ResultObject (await (collection_write env client call)),
                [Call client call])))
      else if operation = JStr (str ''updateOne'') then
        (if \<not> truthy (field mongoQuery (str ''update'')) then
           (Throws (Error (str ''updateOne requires an "update" field'')), [])
         else
           (let call = UpdateOne collection filter (field mongoQuery (str ''update''))
            in (map_completion ResultObject (await (collection_write env client call)),
                [Call client call])))
      else if operation = JStr (str ''updateMany'') then
        (if \<not> truthy (field mongoQuery (str ''update'')) then
           (Throws (Error (str ''updateMany requires an "update" field'')), [])
         else
           (let call = UpdateMany collection filter (field mongoQuery (str ''update''))
            in (map_completion ResultObject (await (collection_write env client call)),
                [Call client call])))
      else if operation = JStr (str ''deleteOne'') then
        (let call = DeleteOne collection filter
         in (map_completion ResultObject (await (collection_write env client call)),
             [Call client call]))
      else if operation = JStr (str ''deleteMany'') then
        (let call = DeleteMany collection filter
         in (map_completion ResultObject (await (collection_write env client call)),
             [Call client call]))
      else if operation = JStr (str ''countDocuments'') then
        (let call = CountDocuments collection filter
         in (map_completion (\<lambda>count. ResultArray [[(str ''count'', JNum count)]])
               (await (collection_countDocuments env client call)),
             [Call client call]))
      else if operation = JStr (str ''aggregate'') then
        (if \<not> truthy (field mongoQuery (str ''pipeline''))
            \<or> \<not> (case field mongoQuery (str ''pipeline'') of JArr ps \<Rightarrow> True | other \<Rightarrow> False)
         then (Throws (Error (str ''aggregate requires a "pipeline" array'')), [])
         else
           (let call = Aggregate collection (field mongoQuery (str ''pipeline''))
            in (map_completion ResultArray (await (cursor_toArray env client call)),
                [Call client call])))
      else
        (Throws (Error (str ''Unsupported MongoDB operation: ''
                   @ toString (field mongoQuery (str ''operation'')))), []))\<close>

text \<open>
  The row count reported for a write: \<^verbatim>\<open>modifiedCount || deletedCount || insertedCount
  || (insertedId ? 1 : 0)\<close>.
\<close>

definition responseRowCount :: "jsobj \<Rightarrow> jsval" where
  "responseRowCount mongoResult =
     js_or (js_or (js_or (field mongoResult (str ''modifiedCount''))
                         (field mongoResult (str ''deletedCount'')))
                  (field mongoResult (str ''insertedCount'')))
           (if truthy (field mongoResult (str ''insertedId'')) then JNum 1 else JNum 0)"

definition mongoReply :: "env \<Rightarrow> mongo_result \<Rightarrow> reply" where
  "mongoReply env mongoResult =
     (let mongoDuration = now_done env - now_start env;
          (responseRows, responseColumns, rowCount) =
            (case mongoResult of
               ResultArray docs \<Rightarrow>
                 (take maxResultRows docs,
                  (case docs of d # rest \<Rightarrow> Object_keys d | [] \<Rightarrow> []),
                  JNum (int (length docs)))
             | ResultObject result \<Rightarrow>
                 ([result], Object_keys result, responseRowCount result))
      in Reply 200 (JObj
           [(str ''success'', JBool True),
            (str ''rows'', JArr (map JObj responseRows)),
            (str ''columns'', JArr (map JStr responseColumns)),
            (str ''rowCount'', rowCount),
            (str ''executionTime'', JNum mongoDuration),
            (str ''dbType'', JStr (str ''mongodb''))]))"

text \<open>The body of the inner \<^verbatim>\<open>try\<close> of the \<^verbatim>\<open>mongodb\<close> case.\<close>

definition mongodbTry ::
  "env \<Rightarrow> jsstring \<Rightarrow> jsstring \<Rightarrow> registry \<Rightarrow> reply completion \<times> registry \<times> event list" where
  "mongodbTry env connectionString validatedQuery R =
     (case getMongoClient env connectionString R of
        (Throws e, R1, calls) \<Rightarrow> (Throws e, R1, calls)
      | (Pending, R1, calls) \<Rightarrow> (Pending, R1, calls)
      | (Returns mongoClient, R1, calls) \<Rightarrow>
          (case parseMongoQuery (JSON_parse env) validatedQuery of
             Inl e \<Rightarrow> (Throws e, R1, calls)
           | Inr mongoQuery \<Rightarrow>
               (let name = field mongoQuery (str ''collection'');
                    calls1 = calls @ [GetCollection mongoClient name]
                in case db_collection env mongoClient name of
                     Some e \<Rightarrow> (Throws e, R1, calls1)
                   | None \<Rightarrow>
                       (case mongoOperation env mongoClient mongoQuery of
                          (mongoResult, calls2) \<Rightarrow>
                            (map_completion (mongoReply env) mongoResult, R1,
                             calls1 @ calls2)))))"

text \<open>
  The inner \<^verbatim>\<open>catch\<close>: on any error of the body the cached client is closed and removed,
  and the error is thrown on to the outer \<^verbatim>\<open>catch\<close>.
\<close>

definition mongodbCase ::
  "env \<Rightarrow> jsstring \<Rightarrow> jsstring \<Rightarrow> registry \<Rightarrow> reply completion \<times> registry \<times> event list" where
  "mongodbCase env connectionString validatedQuery R =
     (case mongodbTry env connectionString validatedQuery R of
        (Throws mongoError, R1, calls) \<Rightarrow>
          (case closeMongoClient env connectionString R1 of
             (Pending, R2, calls2) \<Rightarrow> (Pending, R2, calls @ calls2)
           | (settled, R2, calls2) \<Rightarrow> (Throws mongoError, R2, calls @ calls2))
      | other \<Rightarrow> other)"

subsection \<open>The route\<close>

text \<open>
  The request body \<^verbatim>\<open>{connectionString, query, dbType}\<close>. The connection string and the
  database type are strings when they are there (\<open>None\<close>: absent or \<^verbatim>\<open>null\<close>); the query
  is any value, since the route tests its type.
\<close>

record request =
  connectionString :: "jsstring option"
  query :: jsval
  dbType :: "jsstring option"

definition jsv :: "jsstring option \<Rightarrow> jsval" where
  "jsv x = (case x of Some s \<Rightarrow> JStr s | None \<Rightarrow> JUndefined)"

text \<open>
  \<^verbatim>\<open>app.post('/api/query', ...)\<close>. The result is the response, \<open>None\<close> when the handler
  stays suspended on a promise that never settles and so never answers, with the registry
  after the request and the driver calls made.
\<close>

definition queryRoute ::
  "env \<Rightarrow> request \<Rightarrow> registry \<Rightarrow> reply option \<times> registry \<times> event list" where
  "queryRoute env body R =
     (if \<not> truthy (jsv (connectionString body)) \<or> \<not> truthy (query body) then
        (Some (Reply 400 (JObj [(str ''error'',
            JStr (str ''Connection string and query are required''))])), R, [])
      else
        (let cs = (case connectionString body of Some s \<Rightarrow> s | None \<Rightarrow> []);
             detectedDbType =
               (if truthy (jsv (dbType body)) then (case dbType body of Some s \<Rightarrow> s | None \<Rightarrow> [])
                else getDatabaseType cs)
         in case validateQuery (query body) detectedDbType of
              Inl error \<Rightarrow> (Some (errorReply env error), R, [])
            | Inr validatedQuery \<Rightarrow>
                (case (if detectedDbType = str ''postgres'' then postgresCase env cs validatedQuery R
                       else if detectedDbType = str ''mysql'' then mysqlCase env cs validatedQuery R
                       else if detectedDbType = str ''mongodb'' then mongodbCase env cs validatedQuery R
                       else (Throws (Error (str ''Unsupported database type'')), R, [])) of
                   (Returns r, R1, calls) \<Rightarrow> (Some r, R1, calls)
                 | (Throws error, R1, calls) \<Rightarrow> (Some (errorReply env error), R1, calls)
                 | (Pending, R1, calls) \<Rightarrow> (None, R1, calls))))"

section \<open>The other two routes\<close>

text \<open>
  \<^verbatim>\<open>/api/test-connection\<close> and \<^verbatim>\<open>/api/schema\<close> start with the same check of the body
  and the choice of the database type. What follows the check in each handler (the
  connection probe, the introspection of the catalog) is the parameter \<open>rest\<close>, which
  gets the database type, the connection string and the registry. The body is read as
  for \<^verbatim>\<open>/api/query\<close>; these two routes do not look at its \<^verbatim>\<open>query\<close>, and
  \<^verbatim>\<open>/api/test-connection\<close> not at its \<^verbatim>\<open>dbType\<close>.
\<close>

definition testConnectionRoute ::
  "(jsstring \<Rightarrow> jsstring \<Rightarrow> registry \<Rightarrow> reply option \<times> registry \<times> event list)
     \<Rightarrow> request \<Rightarrow> registry \<Rightarrow> reply option \<times> registry \<times> event list" where
  "testConnectionRoute rest body R =
     (if \<not> truthy (jsv (connectionString body)) then
        (Some (Reply 400 (JObj [(str ''error'', JStr (str ''Connection string is required''))])),
         R, [])
      else
        (let cs = (case connectionString body of Some s \<Rightarrow> s | None \<Rightarrow> []);
             detectedDbType = getDatabaseType cs
         in rest detectedDbType cs R))"

definition schemaRoute ::
  "(jsstring \<Rightarrow> jsstring \<Rightarrow> registry \<Rightarrow> reply option \<times> registry \<times> event list)
     \<Rightarrow> request \<Rightarrow> registry \<Rightarrow> reply option \<times> registry \<times> event list" where
  "schemaRoute rest body R =
     (if \<not> truthy (jsv (connectionString body)) then
        (Some (Reply 400 (JObj [(str ''error'', JStr (str ''Connection string is required''))])),
         R, [])
      else
        (let cs = (case connectionString body of Some s \<Rightarrow> s | None \<Rightarrow> []);
             detectedDbType =
               (if truthy (jsv (dbType body)) then (case dbType body of Some s \<Rightarrow> s | None \<Rightarrow> [])
                else getDatabaseType cs)
         in rest detectedDbType cs R))"

section \<open>Vocabulary for the properties\<close>

text \<open>Reading a response: its status and a property of its body.\<close>

fun status :: "reply \<Rightarrow> nat" where
  "status (Reply st body) = st"

fun reply_field :: "reply \<Rightarrow> jsstring \<Rightarrow> jsval option" where
  "reply_field (Reply st (JObj kvs)) k = map_of kvs k"
| "reply_field (Reply st other) k = None"

text \<open>
  A run of registry calls made by later requests, each in its own environment, and the
  registry it leaves.
\<close>

datatype lookup =
    LookupPostgres jsstring
  | LookupMySQL jsstring
  | LookupMongo jsstring
  | EvictMongo jsstring

fun after :: "env \<times> lookup \<Rightarrow> registry \<Rightarrow> registry" where
  "after (env, LookupPostgres s) R = fst (snd (getPostgresPool env s R))"
| "after (env, LookupMySQL s) R = fst (snd (getMySQLPool env s R))"
| "after (env, LookupMongo s) R = fst (snd (getMongoClient env s R))"
| "after (env, EvictMongo s) R = fst (snd (closeMongoClient env s R))"

definition after_all :: "(env \<times> lookup) list \<Rightarrow> registry \<Rightarrow> registry" where
  "after_all calls R = foldl (\<lambda>R c. after c R) R calls"

text \<open>
  Two lookups of one string by two requests, the second of which arrives while the first
  is suspended at \<^verbatim>\<open>await client.connect()\<close>: the first runs to its \<^verbatim>\<open>await\<close>, the
  second runs to its own, then the first resumes and then the second. The result is what
  each lookup returns, the registry afterwards and the driver calls made.
\<close>

definition overlappingLookups ::
  "env \<Rightarrow> jsstring \<Rightarrow> registry
     \<Rightarrow> handle completion \<times> handle completion \<times> registry \<times> event list" where
  "overlappingLookups env cs R =
     (case getMongoClient_start env cs R of
        (first, R1, calls1) \<Rightarrow>
          (case getMongoClient_start env cs R1 of
             (second, R2, calls2) \<Rightarrow>
               (case (case first of
                        Finished c \<Rightarrow> (c, R2)
                      | AwaitingConnect client \<Rightarrow> getMongoClient_resume env cs client R2) of
                  (result1, R3) \<Rightarrow>
                    (case (case second of
                             Finished c \<Rightarrow> (c, R3)
                           | AwaitingConnect client \<Rightarrow> getMongoClient_resume env cs client R3) of
                       (result2, R4) \<Rightarrow> (result1, result2, R4, calls1 @ calls2)))))"

text \<open>
  The conditions under which the specification says a document-store payload is refused,
  in its words: the parsed payload has no collection, or names an operation that is not
  on the list.
\<close>

definition lacksCollection :: "jsval \<Rightarrow> bool" where
  "lacksCollection v =
     (case v of JObj kvs \<Rightarrow> \<not> truthy (field kvs (str ''collection'')) | other \<Rightarrow> True)"

definition namesUnlistedOperation :: "jsval \<Rightarrow> bool" where
  "namesUnlistedOperation v =
     (case v of
        JObj kvs \<Rightarrow> truthy (field kvs (str ''operation''))
                    \<and> field kvs (str ''operation'') \<notin> set (map JStr validOperations)
      | other \<Rightarrow> False)"

text \<open>Whether a driver call is a call on a collection, as opposed to connecting or closing.\<close>

fun onCollection :: "event \<Rightarrow> bool" where
  "onCollection (GetCollection h n) = True"
| "onCollection (Call h c) = True"
| "onCollection other = False"

text \<open>
  The row count of a write in the specification's words: the first of the modified, deleted
  and inserted counts that is there and not zero, then 1 for an inserted identifier,
  else 0.
\<close>

fun firstApplicable :: "int option list \<Rightarrow> int option" where
  "firstApplicable [] = None"
| "firstApplicable (None # xs) = firstApplicable xs"
| "firstApplicable (Some n # xs) = (if n \<noteq> 0 then Some n else firstApplicable xs)"

definition priorityRowCount :: "int option \<Rightarrow> int option \<Rightarrow> int option \<Rightarrow> bool \<Rightarrow> int" where
  "priorityRowCount modifiedCount deletedCount insertedCount insertedId =
     (case firstApplicable [modifiedCount, deletedCount, insertedCount] of
        Some n \<Rightarrow> n
      | None \<Rightarrow> if insertedId then 1 else 0)"

text \<open>A count property of a driver result: its number, \<open>None\<close> when the property is absent.\<close>

definition countOf :: "jsobj \<Rightarrow> jsstring \<Rightarrow> int option" where
  "countOf result k = (case field result k of JNum n \<Rightarrow> Some n | other \<Rightarrow> None)"

definition countsWellFormed :: "jsobj \<Rightarrow> bool" where
  "countsWellFormed result =
     list_all (\<lambda>k. case field result k of JNum n \<Rightarrow> True | JUndefined \<Rightarrow> True | other \<Rightarrow> False)
       [str ''modifiedCount'', str ''deletedCount'', str ''insertedCount'']"

section \<open>A sample environment\<close>

text \<open>
  One concrete environment, on which the properties below are exercised: a parser that
  knows a handful of payloads, a collection of 1001 documents, drivers that answer after
  a few milliseconds, and write operations whose promise never settles.
\<close>

definition sample_documents :: "jsobj list" where
  "sample_documents = replicate 1001 [(str ''_id'', JNum 1)]"

definition sample_parse :: "jsstring \<Rightarrow> jsval option" where
  \<open>sample_parse s =
     (if s = str ''{"collection":"users"}'' then
        Some (JObj [(str ''collection'', JStr (str ''users''))])
      else if s = str ''{"collection":"users","operation":""}'' then
        Some (JObj [(str ''collection'', JStr (str ''users'')),
                    (str ''operation'', JStr [])])
      else if s = str ''{"collection":"users","operation":"drop"}'' then
        Some (JObj [(str ''collection'', JStr (str ''users'')),
                    (str ''operation'', JStr (str ''drop''))])
      else if s = str ''{"collection":"users","operation":"aggregate","pipeline":[]}'' then
        Some (JObj [(str ''collection'', JStr (str ''users'')),
                    (str ''operation'', JStr (str ''aggregate'')),
                    (str ''pipeline'', JArr [])])
      else if s = str ''{"collection":"users","operation":"insertOne","document":{"a":1}}'' then
        Some (JObj [(str ''collection'', JStr (str ''users'')),
                    (str ''operation'', JStr (str ''insertOne'')),
                    (str ''document'', JObj [(str ''a'', JNum 1)])])
      else None)\<close>

definition sample_env :: env where
  "sample_env =
     \<lparr>JSON_parse = sample_parse,
      StringToNumber = (\<lambda>s. None),
      NODE_ENV = None,
      now_start = 0,
      now_done = 5,
      new_Pool = (\<lambda>s. None),
      createPool = (\<lambda>s. None),
      new_MongoClient = (\<lambda>s. None),
      pool_query = (\<lambda>h q. Settles 5 (Inr \<lparr>rows = Some [],
         fields' = Some [[(str ''name'', JStr (str ''id''))]], rowCount = JNum 0\<rparr>)),
      pool_execute = (\<lambda>h q. Settles 5 (Inr (RowArray [], None))),
      client_connect = (\<lambda>h. Settles 1 (Inr ())),
      client_close = (\<lambda>h. Settles 1 (Inr ())),
      db_collection = (\<lambda>h n. None),
      cursor_toArray = (\<lambda>h c. case c of
           Find n f (Some l) \<Rightarrow> Settles 5 (Inr (take (nat l) sample_documents))
         | other \<Rightarrow> Settles 5 (Inr sample_documents)),
      collection_findOne = (\<lambda>h c. Settles 5 (Inr None)),
      collection_write = (\<lambda>h c. Never),
      collection_countDocuments = (\<lambda>h c. Settles 5 (Inr 1001))\<rparr>"

text \<open>The same environment with a database that has stopped answering its queries.\<close>

definition stalled_env :: env where
  "stalled_env =
     sample_env\<lparr>pool_query := (\<lambda>h q. Never),
                pool_execute := (\<lambda>h q. Never),
                cursor_toArray := (\<lambda>h c. Never),
                collection_findOne := (\<lambda>h c. Never),
                collection_countDocuments := (\<lambda>h c. Never)\<rparr>"

definition empty_registry :: registry where
  "empty_registry = \<lparr>pools = Map.empty, mongoClients = Map.empty, allocated = 0\<rparr>"

section \<open>Properties\<close>

subsection \<open>Helper lemmas\<close>

lemma str_Nil [simp]: "str s = [] \<longleftrightarrow> s = []"
  by (simp add: str_def)

lemma of_char_inj_word: "(of_char x :: jschar) = of_char y \<longleftrightarrow> x = y"
proof
  assume eq: "(of_char x :: jschar) = of_char y"
  have u: "unat (of_char c :: jschar) = of_char c" for c
  proof -
    have a: "word_of_nat (of_char c) = (of_char c :: jschar)" by (simp add: of_nat_of_char)
    have "(256 :: nat) < 2 ^ LENGTH(16)" by simp
    then have b: "(of_char c :: nat) < 2 ^ LENGTH(16)"
      by (rule less_trans [OF nat_of_char_less_256])
    show ?thesis by (rule of_nat_inverse [OF a b])
  qed
  from eq have "unat (of_char x :: jschar) = unat (of_char y :: jschar)" by simp
  then have "(of_char x :: nat) = of_char y" by (simp add: u)
  then show "x = y" by simp
qed simp

lemma str_eq_iff [simp]: "str a = str b \<longleftrightarrow> a = b"
proof -
  have "inj (of_char :: char \<Rightarrow> jschar)"
    by (rule injI) (simp add: of_char_inj_word)
  then show ?thesis by (simp add: str_def inj_map_eq_map)
qed

text \<open>An uninterrupted lookup, written out.\<close>

lemma getMongoClient_unfold:
  "getMongoClient env cs R =
     (case mongoClients R cs of
        Some client \<Rightarrow> (Returns client, R, [])
      | None \<Rightarrow>
          (case new_MongoClient env cs of
             Some e \<Rightarrow> (Throws e, R, [NewMongoClient cs])
           | None \<Rightarrow>
               let client = MongoClient (allocated R);
                   R1 = R\<lparr>allocated := Suc (allocated R)\<rparr>;
                   calls = [NewMongoClient cs, Connect client]
               in (case await (client_connect env client) of
                     Returns u \<Rightarrow>
                       (Returns client,
                        R1\<lparr>mongoClients := (mongoClients R1)(cs \<mapsto> client)\<rparr>,
                        calls)
                   | Throws e \<Rightarrow> (Throws e, R1, calls)
                   | Pending \<Rightarrow> (Pending, R1, calls))))"
  by (simp add: getMongoClient_def getMongoClient_start_def getMongoClient_resume_def Let_def
      split: option.splits completion.splits)

lemma trim_append_whitespace:
  assumes "isWhiteSpace c"
  shows "trim (s @ replicate n c) = trim s"
proof (cases "\<forall>x\<in>set s. isWhiteSpace x")
  case True
  then have "dropWhile isWhiteSpace (s @ replicate n c) = dropWhile isWhiteSpace (replicate n c)"
    by (simp only: dropWhile_append2)
  also have "\<dots> = []"
    using assms by simp
  finally have l: "dropWhile isWhiteSpace (s @ replicate n c) = []" .
  from True have r: "dropWhile isWhiteSpace s = []" by simp
  show ?thesis unfolding trim_def l r by simp
next
  case False
  then obtain x where x: "x \<in> set s" "\<not> isWhiteSpace x" by blast
  then have l: "dropWhile isWhiteSpace (s @ replicate n c) = dropWhile isWhiteSpace s @ replicate n c"
    by (simp add: dropWhile_append1)
  have "dropWhile isWhiteSpace (rev (dropWhile isWhiteSpace s @ replicate n c))
      = dropWhile isWhiteSpace (replicate n c @ rev (dropWhile isWhiteSpace s))"
    by simp
  also have "\<dots> = dropWhile isWhiteSpace (rev (dropWhile isWhiteSpace s))"
    using assms by (intro dropWhile_append2) auto
  finally show ?thesis unfolding trim_def l by simp
qed

lemma isWhiteSpace_space: "isWhiteSpace 0x20"
  by (simp add: isWhiteSpace_def)

lemma trim_replicate_letter: "trim (replicate n (0x61 :: jschar)) = replicate n 0x61"
  by (simp add: trim_def isWhiteSpace_def)

lemma trim_select1: "trim (str ''SELECT 1'') = str ''SELECT 1''"
  by (simp add: trim_def str_def isWhiteSpace_def)

lemma validateQuery_padded:
  "validateQuery (JStr (str ''SELECT 1'' @ replicate 50000 0x20)) t = Inr (str ''SELECT 1'')"
  by (simp add: validateQuery_def trim_append_whitespace isWhiteSpace_space trim_select1)
     (simp add: str_def)

subsection \<open>Validation of the raw query\<close>

text \<open>
  C4, as the code has it. A query that is not a string, or whose trimmed form is empty or
  longer than 50000 code units, is refused by \<open>validateQuery\<close> with one of its three
  messages, and \<^verbatim>\<open>/api/query\<close> then answers without touching the registry and without a
  driver call. The length that counts is the trimmed one: a string whose trimmed form has
  between 1 and 50000 code units is accepted, however long the string itself is.
\<close>

theorem validateQuery_rejects:
  "((\<forall>s. q \<noteq> JStr s) \<or> (\<exists>s. q = JStr s \<and> (trim s = [] \<or> length (trim s) > 50000))
      \<longrightarrow> (\<exists>e. validateQuery q t = Inl e
               \<and> message e \<in> {str ''Query must be a non-empty string'',
                                str ''Query cannot be empty'',
                                str ''Query is too long (max 50000 characters)''})
        \<and> (\<exists>r. queryRoute env \<lparr>connectionString = c, query = q, dbType = d\<rparr> R = (Some r, R, [])))
   \<and> (q = JStr s \<and> trim s \<noteq> [] \<and> length (trim s) \<le> 50000
      \<longrightarrow> validateQuery q t = Inr (trim s))"
proof (intro conjI impI)
  assume bad: "(\<forall>s. q \<noteq> JStr s) \<or> (\<exists>s. q = JStr s \<and> (trim s = [] \<or> length (trim s) > 50000))"
  then have "\<exists>e. (\<forall>t. validateQuery q t = Inl e)
      \<and> message e \<in> {str ''Query must be a non-empty string'', str ''Query cannot be empty'',
                        str ''Query is too long (max 50000 characters)''}"
    by (cases q) (auto simp: validateQuery_def Let_def Error_def)
  then obtain e where e: "\<And>t. validateQuery q t = Inl e"
    and m: "message e \<in> {str ''Query must be a non-empty string'', str ''Query cannot be empty'',
                        str ''Query is too long (max 50000 characters)''}"
    by blast
  from e m show "\<exists>e. validateQuery q t = Inl e
               \<and> message e \<in> {str ''Query must be a non-empty string'',
                                str ''Query cannot be empty'',
                                str ''Query is too long (max 50000 characters)''}"
    by blast
  show "\<exists>r. queryRoute env \<lparr>connectionString = c, query = q, dbType = d\<rparr> R = (Some r, R, [])"
    by (simp add: queryRoute_def Let_def e)
next
  assume "q = JStr s \<and> trim s \<noteq> [] \<and> length (trim s) \<le> 50000"
  then show "validateQuery q t = Inr (trim s)"
    by (auto simp: validateQuery_def Let_def trim_def)
qed

theorem validateQuery_rejects_witness:
  "(\<exists>e. validateQuery (JStr (replicate 50001 0x61)) (str ''postgres'') = Inl e)
   \<and> (\<exists>r. queryRoute sample_env
          \<lparr>connectionString = Some (str ''postgres://h/db''), query = JStr (replicate 50001 0x61),
           dbType = None\<rparr> empty_registry = (Some r, empty_registry, []))
   \<and> validateQuery (JStr (str ''SELECT 1'')) (str ''postgres'') = Inr (str ''SELECT 1'')"
proof -
  have long: "length (trim (replicate 50001 (0x61 :: jschar))) > 50000"
    by (simp add: trim_replicate_letter)
  have ok: "trim (str ''SELECT 1'') \<noteq> [] \<and> length (trim (str ''SELECT 1'')) \<le> 50000"
    by (simp add: trim_select1) (simp add: str_def)
  from long
    validateQuery_rejects [of "JStr (replicate 50001 0x61)" "str ''postgres''" sample_env
      "Some (str ''postgres://h/db'')" None empty_registry "replicate 50001 0x61"]
  have "(\<exists>e. validateQuery (JStr (replicate 50001 0x61)) (str ''postgres'') = Inl e)
      \<and> (\<exists>r. queryRoute sample_env
          \<lparr>connectionString = Some (str ''postgres://h/db''), query = JStr (replicate 50001 0x61),
           dbType = None\<rparr> empty_registry = (Some r, empty_registry, []))"
    by blast
  moreover from ok
    validateQuery_rejects [of "JStr (str ''SELECT 1'')" "str ''postgres''" sample_env
      None None empty_registry "str ''SELECT 1''"]
  have "validateQuery (JStr (str ''SELECT 1'')) (str ''postgres'') = Inr (str ''SELECT 1'')"
    by (simp add: trim_select1)
  ultimately show ?thesis by blast
qed

text \<open>
  The claim as it is worded fails: \<^verbatim>\<open>SELECT 1\<close> followed by 50000 spaces has 50008 code
  units, is accepted, and reaches the PostgreSQL driver as \<^verbatim>\<open>SELECT 1\<close>.
\<close>

theorem long_query_accepted:
  "length (str ''SELECT 1'' @ replicate 50000 (0x20 :: jschar)) > 50000
   \<and> validateQuery (JStr (str ''SELECT 1'' @ replicate 50000 0x20)) (str ''postgres'')
       = Inr (str ''SELECT 1'')
   \<and> snd (snd (queryRoute sample_env
         \<lparr>connectionString = Some (str ''postgres://h/db''),
          query = JStr (str ''SELECT 1'' @ replicate 50000 0x20), dbType = None\<rparr>
         empty_registry))
       = [NewPool (str ''postgres://h/db''), Query (PostgresPool 0) (str ''SELECT 1'')]"
proof -
  have "getDatabaseType (str ''postgres://h/db'') = str ''postgres''"
    by (simp add: getDatabaseType_def str_def)
  then show ?thesis
    by (simp add: validateQuery_padded queryRoute_def Let_def jsv_def postgresCase_def
        getPostgresPool_def sample_env_def empty_registry_def withTimeout_def queryTimeout_def
        split: prod.splits)
qed

subsection \<open>Requests with a missing field\<close>

text \<open>
  C10. A request to \<^verbatim>\<open>/api/query\<close> without a connection string or without a query, and a
  request to \<^verbatim>\<open>/api/test-connection\<close> or \<^verbatim>\<open>/api/schema\<close> without a connection string, is
  answered with status 400 and the body \<^verbatim>\<open>{error: message}\<close>; the registry is left as it
  was, no driver call is made, and the rest of the handler is not entered. The error
  envelope of the \<^verbatim>\<open>catch\<close> block is a different response: status 500 with
  \<^verbatim>\<open>success: false\<close>.
\<close>

theorem missing_field_400:
  "(\<not> truthy (jsv (connectionString body)) \<or> \<not> truthy (query body) \<longrightarrow>
      queryRoute env body R =
        (Some (Reply 400 (JObj [(str ''error'',
           JStr (str ''Connection string and query are required''))])), R, []))
   \<and> (\<not> truthy (jsv (connectionString body)) \<longrightarrow>
      testConnectionRoute rest body R =
        (Some (Reply 400 (JObj [(str ''error'', JStr (str ''Connection string is required''))])),
         R, [])
      \<and> schemaRoute rest body R =
        (Some (Reply 400 (JObj [(str ''error'', JStr (str ''Connection string is required''))])),
         R, []))
   \<and> status (errorReply env e) = 500
   \<and> reply_field (errorReply env e) (str ''success'') = Some (JBool False)"
  by (simp add: queryRoute_def testConnectionRoute_def schemaRoute_def errorReply_def Let_def
      split: prod.splits)

theorem missing_field_400_witness:
  "queryRoute sample_env \<lparr>connectionString = None, query = JUndefined, dbType = None\<rparr>
      empty_registry =
     (Some (Reply 400 (JObj [(str ''error'',
        JStr (str ''Connection string and query are required''))])), empty_registry, [])
   \<and> testConnectionRoute (\<lambda>t s R. (None, R, [Connect (MongoClient 0)]))
        \<lparr>connectionString = Some [], query = JUndefined, dbType = None\<rparr> empty_registry =
     (Some (Reply 400 (JObj [(str ''error'', JStr (str ''Connection string is required''))])),
      empty_registry, [])
   \<and> schemaRoute (\<lambda>t s R. (None, R, [Connect (MongoClient 0)]))
        \<lparr>connectionString = Some [], query = JUndefined, dbType = None\<rparr> empty_registry =
     (Some (Reply 400 (JObj [(str ''error'', JStr (str ''Connection string is required''))])),
      empty_registry, [])"
proof -
  have a: "\<not> truthy (jsv (connectionString
      \<lparr>connectionString = None, query = JUndefined, dbType = None\<rparr>))"
    by (simp add: jsv_def)
  have b: "\<not> truthy (jsv (connectionString
      \<lparr>connectionString = Some [], query = JUndefined, dbType = None\<rparr>))"
    by (simp add: jsv_def)
  show ?thesis
    using a b
      missing_field_400 [of "\<lparr>connectionString = None, query = JUndefined, dbType = None\<rparr>"
        sample_env empty_registry]
      missing_field_400 [of "\<lparr>connectionString = Some [], query = JUndefined, dbType = None\<rparr>"
        sample_env empty_registry "\<lambda>t s R. (None, R, [Connect (MongoClient 0)])"]
    by blast
qed

subsection \<open>The row count of a write\<close>

text \<open>
  Where the inserted identifier is absent or truthy, the reported row count follows the
  order of the specification: for a write result whose three counts are numbers where they
  are present, it is the first of \<^verbatim>\<open>modifiedCount\<close>, \<^verbatim>\<open>deletedCount\<close> and
  \<^verbatim>\<open>insertedCount\<close> that is present and not zero, then 1 when there is an inserted
  identifier, and 0 otherwise.
\<close>

lemma responseRowCount_priority:
  assumes "countsWellFormed result"
    and "field result (str ''insertedId'') = JUndefined
         \<or> truthy (field result (str ''insertedId''))"
  shows "responseRowCount result =
     JNum (priorityRowCount (countOf result (str ''modifiedCount''))
             (countOf result (str ''deletedCount'')) (countOf result (str ''insertedCount''))
             (field result (str ''insertedId'') \<noteq> JUndefined))"
  using assms
  by (auto simp: countsWellFormed_def responseRowCount_def priorityRowCount_def countOf_def
      js_or_def split: jsval.splits)

lemma responseRowCount_examples:
  "responseRowCount [(str ''acknowledged'', JBool True), (str ''modifiedCount'', JNum 0),
      (str ''upsertedId'', JNull), (str ''upsertedCount'', JNum 0),
      (str ''matchedCount'', JNum 1)] = JNum 0"
  "responseRowCount [(str ''acknowledged'', JBool True), (str ''deletedCount'', JNum 0)]
     = JNum 0"
  "responseRowCount [(str ''acknowledged'', JBool True), (str ''insertedCount'', JNum 3),
      (str ''insertedIds'', JObj [])] = JNum 3"
  "responseRowCount [(str ''acknowledged'', JBool True),
      (str ''insertedId'', JStr (str ''65f0c0ffee''))] = JNum 1"
  by (simp_all add: responseRowCount_def js_or_def field_def)

text \<open>
  C6 fails where the inserted identifier is there but falsy. The server tests it with
  \<^verbatim>\<open>insertedId ? 1 : 0\<close>, so for a write result without a count that is not zero and
  with an inserted identifier of 0, the empty string or \<^verbatim>\<open>false\<close>, the order of the
  specification gives 1 and the server reports 0, for a document that was inserted.
\<close>

theorem falsy_insertedId_counts_nothing:
  assumes "countsWellFormed result"
    and "firstApplicable [countOf result (str ''modifiedCount''),
           countOf result (str ''deletedCount''), countOf result (str ''insertedCount'')] = None"
    and "field result (str ''insertedId'') \<noteq> JUndefined"
    and "\<not> truthy (field result (str ''insertedId''))"
  shows "responseRowCount result = JNum 0
       \<and> priorityRowCount (countOf result (str ''modifiedCount''))
             (countOf result (str ''deletedCount'')) (countOf result (str ''insertedCount''))
             (field result (str ''insertedId'') \<noteq> JUndefined) = 1"
  using assms
  by (auto simp: countsWellFormed_def responseRowCount_def priorityRowCount_def countOf_def
      js_or_def split: jsval.splits if_splits)

theorem falsy_insertedId_counts_nothing_witness:
  "field [(str ''acknowledged'', JBool True), (str ''insertedId'', JNum 0)] (str ''insertedId'')
     = JNum 0
   \<and> responseRowCount [(str ''acknowledged'', JBool True), (str ''insertedId'', JNum 0)]
       = JNum 0
   \<and> priorityRowCount None None None True = 1"
proof -
  let ?r = "[(str ''acknowledged'', JBool True), (str ''insertedId'', JNum 0)]"
  have h1: "countsWellFormed ?r"
    by (simp add: countsWellFormed_def field_def)
  have h2: "firstApplicable [countOf ?r (str ''modifiedCount''),
           countOf ?r (str ''deletedCount''), countOf ?r (str ''insertedCount'')] = None"
    by (simp add: countOf_def field_def)
  have h3: "field ?r (str ''insertedId'') \<noteq> JUndefined"
    and h4: "\<not> truthy (field ?r (str ''insertedId''))"
    by (simp_all add: field_def)
  from falsy_insertedId_counts_nothing [OF h1 h2 h3 h4]
  show ?thesis by (simp add: countOf_def field_def)
qed

subsection \<open>Column names\<close>

text \<open>
  C8, as the code has it. PostgreSQL and MySQL take the column names from the driver's
  field metadata whenever it is there, also when no row came back. Without metadata MySQL
  takes the keys of the first row (of the result header, for a write), and the columns of
  an empty result are empty for PostgreSQL and MySQL alike. MongoDB always takes the keys
  of the first row. Each of these is a response with status 200.
\<close>

theorem columns_policy:
  "(fields' r = Some fs \<longrightarrow>
      reply_field (postgresReply env r) (str ''columns'')
        = Some (JArr (map (\<lambda>f. field f (str ''name'')) fs)))
   \<and> (fields' r = None \<and> (rows r = None \<or> rows r = Some []) \<longrightarrow>
      reply_field (postgresReply env r) (str ''columns'') = Some (JArr []))
   \<and> reply_field (mysqlReply env (RowArray rs, Some fs)) (str ''columns'')
        = Some (JArr (map (\<lambda>f. field f (str ''name'')) fs))
   \<and> reply_field (mysqlReply env (RowArray (row # rs), None)) (str ''columns'')
        = Some (JArr (map JStr (Object_keys row)))
   \<and> reply_field (mysqlReply env (RowArray [], None)) (str ''columns'') = Some (JArr [])
   \<and> reply_field (mysqlReply env (Packet row, mf)) (str ''columns'')
        = Some (JArr (map JStr (Object_keys row)))
   \<and> reply_field (mysqlReply env (Packet row, mf)) (str ''rows'') = Some (JArr [JObj row])
   \<and> reply_field (mongoReply env (ResultArray (row # rs))) (str ''columns'')
        = Some (JArr (map JStr (Object_keys row)))
   \<and> reply_field (mongoReply env (ResultArray [])) (str ''columns'') = Some (JArr [])
   \<and> reply_field (mongoReply env (ResultObject row)) (str ''columns'')
        = Some (JArr (map JStr (Object_keys row)))
   \<and> reply_field (mongoReply env (ResultObject row)) (str ''rows'') = Some (JArr [JObj row])
   \<and> status (postgresReply env r) = 200 \<and> status (mysqlReply env my) = 200
   \<and> status (mongoReply env mr) = 200"
  by (simp add: postgresReply_def mysqlReply_def mongoReply_def Let_def maxResultRows_def
      str_def split: prod.splits mysql_rows.splits mongo_result.splits)

theorem columns_policy_witness:
  "reply_field (postgresReply sample_env
      \<lparr>rows = Some [[(str ''id'', JNum 7)]], fields' = Some [[(str ''name'', JStr (str ''id''))]],
       rowCount = JNum 1\<rparr>) (str ''columns'') = Some (JArr [JStr (str ''id'')])
   \<and> reply_field (postgresReply sample_env \<lparr>rows = Some [], fields' = None, rowCount = JNull\<rparr>)
       (str ''columns'') = Some (JArr [])
   \<and> reply_field (mysqlReply sample_env (RowArray [[(str ''id'', JNum 7)]], None))
       (str ''columns'') = Some (JArr [JStr (str ''id'')])
   \<and> reply_field (mongoReply sample_env (ResultArray [])) (str ''columns'') = Some (JArr [])"
proof -
  let ?r1 = "\<lparr>rows = Some [[(str ''id'', JNum 7)]],
      fields' = Some [[(str ''name'', JStr (str ''id''))]], rowCount = JNum 1\<rparr>"
  let ?r2 = "\<lparr>rows = Some [], fields' = None, rowCount = JNull\<rparr>"
  have h1: "fields' ?r1 = Some [[(str ''name'', JStr (str ''id''))]]" by simp
  have h2: "fields' ?r2 = None \<and> (rows ?r2 = None \<or> rows ?r2 = Some [])" by simp
  from h1 columns_policy [of ?r1 "[[(str ''name'', JStr (str ''id''))]]" sample_env]
  have c1: "reply_field (postgresReply sample_env ?r1) (str ''columns'')
      = Some (JArr [JStr (str ''id'')])"
    by (simp add: field_def)
  from h2 columns_policy [of ?r2 "[]" sample_env]
  have c2: "reply_field (postgresReply sample_env ?r2) (str ''columns'') = Some (JArr [])"
    by blast
  from columns_policy [of ?r2 "[]" sample_env "[]" "[(str ''id'', JNum 7)]"]
  have c3: "reply_field (mysqlReply sample_env (RowArray [[(str ''id'', JNum 7)]], None))
       (str ''columns'') = Some (JArr [JStr (str ''id'')])"
    by (simp add: Object_keys_def)
  from columns_policy [of ?r2 "[]" sample_env]
  have c4: "reply_field (mongoReply sample_env (ResultArray [])) (str ''columns'') = Some (JArr [])"
    by blast
  from c1 c2 c3 c4 show ?thesis by blast
qed

text \<open>
  The claim as it is worded fails for an empty result that comes with field metadata:
  \<^verbatim>\<open>SELECT id FROM users WHERE false\<close> on PostgreSQL returns no row and the field
  \<^verbatim>\<open>id\<close>, and the column list of the response is \<^verbatim>\<open>["id"]\<close>, not empty.
\<close>

theorem empty_result_with_columns:
  "reply_field (postgresReply sample_env
      \<lparr>rows = Some [], fields' = Some [[(str ''name'', JStr (str ''id''))]], rowCount = JNum 0\<rparr>)
      (str ''rows'') = Some (JArr [])
   \<and> reply_field (postgresReply sample_env
      \<lparr>rows = Some [], fields' = Some [[(str ''name'', JStr (str ''id''))]], rowCount = JNum 0\<rparr>)
      (str ''columns'') = Some (JArr [JStr (str ''id'')])"
  by (simp add: postgresReply_def Let_def field_def str_def)

subsection \<open>The sample environment and the route to the MongoDB case\<close>

lemma Nil_str [simp]: "[] = str s \<longleftrightarrow> s = []"
  by (simp add: str_def)

lemma sample_env_simps [simp]:
  "JSON_parse sample_env = sample_parse"
  "NODE_ENV sample_env = None"
  "now_start sample_env = 0"
  "now_done sample_env = 5"
  "new_Pool sample_env s = None"
  "createPool sample_env s = None"
  "new_MongoClient sample_env s = None"
  "client_connect sample_env h = Settles 1 (Inr ())"
  "client_close sample_env h = Settles 1 (Inr ())"
  "db_collection sample_env h n = None"
  "cursor_toArray sample_env h (Find n f (Some l)) = Settles 5 (Inr (take (nat l) sample_documents))"
  "cursor_toArray sample_env h (Aggregate n p) = Settles 5 (Inr sample_documents)"
  "collection_findOne sample_env h c = Settles 5 (Inr None)"
  "collection_write sample_env h c = Never"
  "collection_countDocuments sample_env h c = Settles 5 (Inr 1001)"
  by (simp_all add: sample_env_def)

lemma stalled_env_simps [simp]:
  "JSON_parse stalled_env = sample_parse"
  "new_MongoClient stalled_env s = None"
  "client_connect stalled_env h = Settles 1 (Inr ())"
  "client_close stalled_env h = Settles 1 (Inr ())"
  "db_collection stalled_env h n = None"
  "cursor_toArray stalled_env h c = Never"
  "collection_findOne stalled_env h c = Never"
  "collection_write stalled_env h c = Never"
  "collection_countDocuments stalled_env h c = Never"
  by (simp_all add: stalled_env_def sample_env_def)

lemma queryRoute_mongodb:
  assumes "connectionString body = Some cs" and "cs \<noteq> []" and "dbType body = None"
    and "getDatabaseType cs = str ''mongodb''"
    and "validateQuery (query body) (str ''mongodb'') = Inr v"
  shows "queryRoute env body R =
     (case mongodbCase env cs v R of
        (Returns r, R1, calls) \<Rightarrow> (Some r, R1, calls)
      | (Throws error, R1, calls) \<Rightarrow> (Some (errorReply env error), R1, calls)
      | (Pending, R1, calls) \<Rightarrow> (None, R1, calls))"
proof -
  have "truthy (query body)"
    using assms(5) by (cases "query body") (auto simp: validateQuery_def)
  then show ?thesis
    using assms by (simp add: queryRoute_def Let_def jsv_def)
qed

lemma getMongoClient_sample:
  "getMongoClient sample_env cs empty_registry =
     (Returns (MongoClient 0),
      \<lparr>pools = Map.empty, mongoClients = [cs \<mapsto> MongoClient 0], allocated = 1\<rparr>,
      [NewMongoClient cs, Connect (MongoClient 0)])"
  by (simp add: getMongoClient_unfold empty_registry_def Let_def)

lemma getMongoClient_stalled:
  "getMongoClient stalled_env cs empty_registry =
     (Returns (MongoClient 0),
      \<lparr>pools = Map.empty, mongoClients = [cs \<mapsto> MongoClient 0], allocated = 1\<rparr>,
      [NewMongoClient cs, Connect (MongoClient 0)])"
  by (simp add: getMongoClient_unfold empty_registry_def Let_def)

lemma getDatabaseType_mongodb: "getDatabaseType (str ''mongodb://h/db'') = str ''mongodb''"
  by (simp add: getDatabaseType_def str_def)

lemma validateQuery_find:
  \<open>validateQuery (JStr (str ''{"collection":"users"}'')) t = Inr (str ''{"collection":"users"}'')\<close>
  by (simp add: validateQuery_def trim_def isWhiteSpace_def str_def)

lemma parse_find:
  \<open>parseMongoQuery sample_parse (str ''{"collection":"users"}'')
     = Inr [(str ''collection'', JStr (str ''users''))]\<close>
  by (simp add: parseMongoQuery_def sample_parse_def field_def validOperations_def)

subsection \<open>The cap on returned rows\<close>

lemma postgresReply_capped:
  assumes "rows r = Some rs" and "length rs > maxResultRows"
  shows "reply_field (postgresReply env r) (str ''rows'') = Some (JArr (map JObj (take 1000 rs)))"
    and "length (take 1000 rs) = 1000"
    and "reply_field (postgresReply env r) (str ''hasMore'') = Some (JBool True)"
    and "reply_field (postgresReply env r) (str ''totalRows'') = Some (JNum (int (length rs)))"
  using assms by (simp_all add: postgresReply_def Let_def maxResultRows_def str_def)

lemma mysqlReply_capped:
  assumes "length rs > maxResultRows"
  shows "reply_field (mysqlReply env (RowArray rs, mf)) (str ''rows'')
           = Some (JArr (map JObj (take 1000 rs)))"
    and "length (take 1000 rs) = 1000"
    and "reply_field (mysqlReply env (RowArray rs, mf)) (str ''hasMore'') = Some (JBool True)"
    and "reply_field (mysqlReply env (RowArray rs, mf)) (str ''rowCount'')
           = Some (JNum (int (length rs)))"
  using assms by (simp_all add: mysqlReply_def Let_def maxResultRows_def str_def)

text \<open>
  C1 holds for PostgreSQL and MySQL (the two lemmas above) and fails for MongoDB: an
  array of more than 1000 documents, which \<^verbatim>\<open>aggregate\<close> can return, is cut to 1000 rows
  and counted in full, but the response has no \<^verbatim>\<open>hasMore\<close> and no \<^verbatim>\<open>totalRows\<close>.
\<close>

theorem mongoReply_no_hasMore:
  assumes "length docs > maxResultRows"
  shows "reply_field (mongoReply env (ResultArray docs)) (str ''rows'')
           = Some (JArr (map JObj (take 1000 docs)))
       \<and> length (take 1000 docs) = 1000
       \<and> reply_field (mongoReply env (ResultArray docs)) (str ''rowCount'')
           = Some (JNum (int (length docs)))
       \<and> reply_field (mongoReply env (ResultArray docs)) (str ''hasMore'') = None
       \<and> reply_field (mongoReply env (ResultArray docs)) (str ''totalRows'') = None"
  using assms by (simp add: mongoReply_def Let_def maxResultRows_def str_def)

lemma validateQuery_aggregate:
  \<open>validateQuery (JStr (str ''{"collection":"users","operation":"aggregate","pipeline":[]}'')) t
     = Inr (str ''{"collection":"users","operation":"aggregate","pipeline":[]}'')\<close>
  by (simp add: validateQuery_def trim_def isWhiteSpace_def str_def)

lemma parse_aggregate:
  \<open>parseMongoQuery sample_parse (str ''{"collection":"users","operation":"aggregate","pipeline":[]}'')
     = Inr [(str ''collection'', JStr (str ''users'')),
            (str ''operation'', JStr (str ''aggregate'')),
            (str ''pipeline'', JArr [])]\<close>
  by (simp add: parseMongoQuery_def sample_parse_def field_def validOperations_def)

lemma mongoOperation_aggregate:
  \<open>mongoOperation sample_env h
      [(str ''collection'', JStr (str ''users'')), (str ''operation'', JStr (str ''aggregate'')),
       (str ''pipeline'', JArr [])]
     = (Returns (ResultArray sample_documents),
        [Call h (Aggregate (JStr (str ''users'')) (JArr []))])\<close>
  by (simp add: mongoOperation_def Let_def field_def js_or_def)

theorem mongoReply_no_hasMore_witness:
  \<open>fst (queryRoute sample_env
        \<lparr>connectionString = Some (str ''mongodb://h/db''),
         query = JStr (str ''{"collection":"users","operation":"aggregate","pipeline":[]}''),
         dbType = None\<rparr> empty_registry)
     = Some (mongoReply sample_env (ResultArray sample_documents))
   \<and> length sample_documents = 1001
   \<and> reply_field (mongoReply sample_env (ResultArray sample_documents)) (str ''rowCount'')
       = Some (JNum 1001)
   \<and> reply_field (mongoReply sample_env (ResultArray sample_documents)) (str ''hasMore'') = None\<close>
proof -
  have len: "length sample_documents > maxResultRows"
    by (simp add: sample_documents_def maxResultRows_def)
  have route: \<open>fst (queryRoute sample_env
        \<lparr>connectionString = Some (str ''mongodb://h/db''),
         query = JStr (str ''{"collection":"users","operation":"aggregate","pipeline":[]}''),
         dbType = None\<rparr> empty_registry)
     = Some (mongoReply sample_env (ResultArray sample_documents))\<close>
    by (subst queryRoute_mongodb [where cs = "str ''mongodb://h/db''"
          and v = \<open>str ''{"collection":"users","operation":"aggregate","pipeline":[]}''\<close>])
       (simp_all add: getDatabaseType_mongodb validateQuery_aggregate mongodbCase_def
          mongodbTry_def getMongoClient_sample parse_aggregate mongoOperation_aggregate
          field_def)
  from mongoReply_no_hasMore [OF len, of sample_env] route show ?thesis
    by (simp add: sample_documents_def)
qed

subsection \<open>The execution timeout\<close>

lemma withTimeout_late:
  assumes "p = Never \<or> (\<exists>t r. p = Settles t r \<and> queryTimeout \<le> t)" and "msg \<noteq> []"
  shows "await (withTimeout p queryTimeout msg) = Throws (Error msg)"
  using assms by (auto simp: withTimeout_def Let_def)

lemma errorReply_timeout:
  assumes "js_includes (message e) (str ''timeout'')"
  shows "status (errorReply env e) = 500"
    and "reply_field (errorReply env e) (str ''success'') = Some (JBool False)"
    and "reply_field (errorReply env e) (str ''errorCode'') = Some (JStr (str ''TIMEOUT''))"
  using assms by (simp_all add: errorReply_def Let_def)

lemma timeout_messages:
  "js_includes (message (Error (str ''PostgreSQL query timeout''))) (str ''timeout'')"
  "js_includes (message (Error (str ''MySQL query timeout''))) (str ''timeout'')"
  "js_includes (message (Error (str ''MongoDB query timeout''))) (str ''timeout'')"
  by (simp_all add: Error_def str_def)

text \<open>
  The paths that go through \<^verbatim>\<open>withTimeout\<close> do answer a late or missing driver result with
  a timeout error: the PostgreSQL query, the MySQL query, and MongoDB's \<^verbatim>\<open>find\<close>.
\<close>

lemma postgresCase_timeout:
  assumes "pools R cs = Some h"
    and "pool_query env h q = Never \<or> (\<exists>t r. pool_query env h q = Settles t r \<and> queryTimeout \<le> t)"
  shows "postgresCase env cs q R = (Throws (Error (str ''PostgreSQL query timeout'')), R, [Query h q])"
  using assms(1) withTimeout_late [OF assms(2), of "str ''PostgreSQL query timeout''"]
  by (simp add: postgresCase_def getPostgresPool_def)

lemma mysqlCase_timeout:
  assumes "pools R cs = Some (MySQLPool n)"
    and "pool_execute env (MySQLPool n) q = Never
         \<or> (\<exists>t r. pool_execute env (MySQLPool n) q = Settles t r \<and> queryTimeout \<le> t)"
  shows "mysqlCase env cs q R
           = (Throws (Error (str ''MySQL query timeout'')), R, [Execute (MySQLPool n) q])"
  using assms(1) withTimeout_late [OF assms(2), of "str ''MySQL query timeout''"]
  by (simp add: mysqlCase_def getMySQLPool_def)

lemma find_timeout:
  assumes "field mq (str ''operation'') = JUndefined \<or> field mq (str ''operation'') = JStr (str ''find'')"
    and "\<forall>c. cursor_toArray env h c = Never"
  shows "fst (mongoOperation env h mq) = Throws (Error (str ''MongoDB query timeout''))"
proof -
  have late: "await (withTimeout (cursor_toArray env h c) queryTimeout (str ''MongoDB query timeout''))
      = Throws (Error (str ''MongoDB query timeout''))" for c
    using assms(2) by (intro withTimeout_late) simp_all
  have op: "js_or (field mq (str ''operation'')) (JStr (str ''find'')) = JStr (str ''find'')"
    using assms(1) by (auto simp: js_or_def)
  show ?thesis
    by (simp add: mongoOperation_def Let_def op late)
qed

text \<open>
  An operation that is awaited without the timer is answered whenever its promise settles,
  however late: an \<^verbatim>\<open>insertOne\<close> that takes ten minutes ends in a success.
\<close>

lemma unraced_write_late:
  assumes "field mq (str ''operation'') = JStr (str ''insertOne'')"
    and "truthy (field mq (str ''document''))"
    and "collection_write env h
           (InsertOne (field mq (str ''collection'')) (field mq (str ''document'')))
         = Settles t (Inr r)"
  shows "fst (mongoOperation env h mq) = Returns (ResultObject r)"
proof -
  have op: "js_or (field mq (str ''operation'')) (JStr (str ''find'')) = JStr (str ''insertOne'')"
    using assms(1) by (simp add: js_or_def)
  show ?thesis
    using assms(2,3) by (simp add: mongoOperation_def Let_def op)
qed

text \<open>
  C2 fails for the other eight MongoDB operations: they await the driver's promise with no
  timer beside it. When that promise never settles, the operation neither returns nor
  throws a timeout error: the handler stays suspended, or (for a payload without the
  operation's argument) throws the error that names the missing field.
\<close>

theorem unraced_operation_no_timeout:
  assumes "field mq (str ''operation'') = JStr op"
    and "op \<in> set (map str [''insertOne'', ''insertMany'', ''updateOne'', ''updateMany'',
           ''deleteOne'', ''deleteMany'', ''countDocuments'', ''aggregate''])"
    and "\<forall>c. collection_write env h c = Never"
    and "\<forall>c. collection_countDocuments env h c = Never"
    and "\<forall>c. cursor_toArray env h c = Never"
  shows "case fst (mongoOperation env h mq) of
           Pending \<Rightarrow> True
         | Throws e \<Rightarrow> \<not> js_includes (message e) (str ''timeout'')
         | Returns r \<Rightarrow> False"
proof -
  have m: \<open>\<not> js_includes (message (Error (str ''insertOne requires a "document" field'')))
             (str ''timeout'')\<close>
    \<open>\<not> js_includes (message (Error (str ''insertMany requires a "documents" array'')))
             (str ''timeout'')\<close>
    \<open>\<not> js_includes (message (Error (str ''updateOne requires an "update" field'')))
             (str ''timeout'')\<close>
    \<open>\<not> js_includes (message (Error (str ''updateMany requires an "update" field'')))
             (str ''timeout'')\<close>
    \<open>\<not> js_includes (message (Error (str ''aggregate requires a "pipeline" array'')))
             (str ''timeout'')\<close>
    by (simp_all add: Error_def str_def)
  have "op \<noteq> []"
    using assms(2) by auto
  then have op: "js_or (field mq (str ''operation'')) (JStr (str ''find'')) = JStr op"
    using assms(1) by (simp add: js_or_def)
  from assms(2) consider "op = str ''insertOne''" | "op = str ''insertMany''"
    | "op = str ''updateOne''" | "op = str ''updateMany''" | "op = str ''deleteOne''"
    | "op = str ''deleteMany''" | "op = str ''countDocuments''" | "op = str ''aggregate''"
    by auto
  then show ?thesis
  proof cases
    case 1
    with assms(3) m(1) show ?thesis by (simp add: mongoOperation_def Let_def op)
  next
    case 2
    with assms(3) m(2) show ?thesis by (simp add: mongoOperation_def Let_def op)
  next
    case 3
    with assms(3) m(3) show ?thesis by (simp add: mongoOperation_def Let_def op)
  next
    case 4
    with assms(3) m(4) show ?thesis by (simp add: mongoOperation_def Let_def op)
  next
    case 5
    with assms(3) show ?thesis by (simp add: mongoOperation_def Let_def op)
  next
    case 6
    with assms(3) show ?thesis by (simp add: mongoOperation_def Let_def op)
  next
    case 7
    with assms(4) show ?thesis by (simp add: mongoOperation_def Let_def op)
  next
    case 8
    with assms(5) m(5) show ?thesis by (simp add: mongoOperation_def Let_def op)
  qed
qed

lemma validateQuery_insertOne:
  \<open>validateQuery
      (JStr (str ''{"collection":"users","operation":"insertOne","document":{"a":1}}'')) t
     = Inr (str ''{"collection":"users","operation":"insertOne","document":{"a":1}}'')\<close>
  by (simp add: validateQuery_def trim_def isWhiteSpace_def str_def)

lemma parse_insertOne:
  \<open>parseMongoQuery sample_parse
      (str ''{"collection":"users","operation":"insertOne","document":{"a":1}}'')
     = Inr [(str ''collection'', JStr (str ''users'')),
            (str ''operation'', JStr (str ''insertOne'')),
            (str ''document'', JObj [(str ''a'', JNum 1)])]\<close>
  by (simp add: parseMongoQuery_def sample_parse_def field_def validOperations_def)

theorem unraced_operation_no_timeout_witness:
  \<open>fst (mongoOperation stalled_env (MongoClient 0)
          [(str ''collection'', JStr (str ''users'')),
           (str ''operation'', JStr (str ''insertOne'')),
           (str ''document'', JObj [(str ''a'', JNum 1)])]) = Pending
   \<and> fst (queryRoute stalled_env
        \<lparr>connectionString = Some (str ''mongodb://h/db''),
         query = JStr (str ''{"collection":"users","operation":"insertOne","document":{"a":1}}''),
         dbType = None\<rparr> empty_registry) = None
   \<and> fst (queryRoute stalled_env
        \<lparr>connectionString = Some (str ''mongodb://h/db''),
         query = JStr (str ''{"collection":"users"}''), dbType = None\<rparr> empty_registry)
       = Some (errorReply stalled_env (Error (str ''MongoDB query timeout'')))
   \<and> reply_field (errorReply stalled_env (Error (str ''MongoDB query timeout'')))
        (str ''errorCode'') = Some (JStr (str ''TIMEOUT''))\<close>
proof -
  let ?mq = "[(str ''collection'', JStr (str ''users'')),
              (str ''operation'', JStr (str ''insertOne'')),
              (str ''document'', JObj [(str ''a'', JNum 1)])]"
  have h1: "field ?mq (str ''operation'') = JStr (str ''insertOne'')"
    by (simp add: field_def)
  have h2: "str ''insertOne'' \<in> set (map str [''insertOne'', ''insertMany'', ''updateOne'',
      ''updateMany'', ''deleteOne'', ''deleteMany'', ''countDocuments'', ''aggregate''])"
    by simp
  have h3: "\<forall>c. collection_write stalled_env (MongoClient 0) c = Never"
    and h4: "\<forall>c. collection_countDocuments stalled_env (MongoClient 0) c = Never"
    and h5: "\<forall>c. cursor_toArray stalled_env (MongoClient 0) c = Never"
    by simp_all
  have doc: "fst (mongoOperation stalled_env (MongoClient 0) ?mq) \<noteq> Throws e" for e
    by (simp add: mongoOperation_def Let_def field_def js_or_def)
  have pending: "fst (mongoOperation stalled_env (MongoClient 0) ?mq) = Pending"
    using unraced_operation_no_timeout [OF h1 h2 h3 h4 h5] doc
    by (cases "fst (mongoOperation stalled_env (MongoClient 0) ?mq)") auto
  then have op: "mongoOperation stalled_env (MongoClient 0) ?mq
      = (Pending, snd (mongoOperation stalled_env (MongoClient 0) ?mq))"
    by (metis prod.collapse)
  have insert: \<open>fst (queryRoute stalled_env
        \<lparr>connectionString = Some (str ''mongodb://h/db''),
         query = JStr (str ''{"collection":"users","operation":"insertOne","document":{"a":1}}''),
         dbType = None\<rparr> empty_registry) = None\<close>
    by (subst queryRoute_mongodb [where cs = "str ''mongodb://h/db''"
          and v = \<open>str ''{"collection":"users","operation":"insertOne","document":{"a":1}}''\<close>])
       (simp_all add: getDatabaseType_mongodb validateQuery_insertOne mongodbCase_def
          mongodbTry_def getMongoClient_stalled parse_insertOne field_def,
        subst op, simp)
  have f: "fst (mongoOperation stalled_env (MongoClient 0) [(str ''collection'', JStr (str ''users''))])
      = Throws (Error (str ''MongoDB query timeout''))"
    by (rule find_timeout) (simp_all add: field_def)
  then have fop: "mongoOperation stalled_env (MongoClient 0) [(str ''collection'', JStr (str ''users''))]
      = (Throws (Error (str ''MongoDB query timeout'')),
         snd (mongoOperation stalled_env (MongoClient 0) [(str ''collection'', JStr (str ''users''))]))"
    by (metis prod.collapse)
  have find: \<open>fst (queryRoute stalled_env
        \<lparr>connectionString = Some (str ''mongodb://h/db''),
         query = JStr (str ''{"collection":"users"}''), dbType = None\<rparr> empty_registry)
       = Some (errorReply stalled_env (Error (str ''MongoDB query timeout'')))\<close>
    by (subst queryRoute_mongodb [where cs = "str ''mongodb://h/db''"
          and v = \<open>str ''{"collection":"users"}''\<close>])
       (simp_all add: getDatabaseType_mongodb validateQuery_find mongodbCase_def
          mongodbTry_def getMongoClient_stalled parse_find field_def closeMongoClient_def,
        subst fop, simp add: closeMongoClient_def)
  from pending insert find errorReply_timeout(3) [OF timeout_messages(3), of stalled_env]
  show ?thesis by blast
qed

subsection \<open>The default limit of find\<close>

text \<open>
  C9. A \<^verbatim>\<open>find\<close> (the operation named or left out) whose payload has no \<^verbatim>\<open>limit\<close> asks
  the driver for at most 100 documents; with a numeric limit \<open>n\<close> it asks for
  \<open>min (n or 100) 1000\<close>. When the driver honours the limit and more than 100 documents
  match, the response has exactly the first 100 as rows, a row count of 100, and neither
  \<^verbatim>\<open>hasMore\<close> nor \<^verbatim>\<open>totalRows\<close>; no MongoDB response has either of the two.
\<close>

theorem find_default_limit:
  assumes "field mq (str ''operation'') = JUndefined
           \<or> field mq (str ''operation'') = JStr (str ''find'')"
  shows "(map_of mq (str ''limit'') = None \<longrightarrow>
            snd (mongoOperation env h mq) =
              [Call h (Find (field mq (str ''collection''))
                 (js_or (field mq (str ''filter'')) (JObj [])) (Some 100))]
          \<and> (cursor_toArray env h (Find (field mq (str ''collection''))
                 (js_or (field mq (str ''filter'')) (JObj [])) (Some 100))
                = Settles t (Inr (take 100 matching))
              \<and> t < queryTimeout \<and> length matching > 100 \<longrightarrow>
              fst (mongoOperation env h mq) = Returns (ResultArray (take 100 matching))
              \<and> reply_field (mongoReply env (ResultArray (take 100 matching))) (str ''rows'')
                  = Some (JArr (map JObj (take 100 matching)))
              \<and> length (take 100 matching) = 100
              \<and> reply_field (mongoReply env (ResultArray (take 100 matching))) (str ''rowCount'')
                  = Some (JNum 100)))
       \<and> (field mq (str ''limit'') = JNum n \<longrightarrow>
            snd (mongoOperation env h mq) =
              [Call h (Find (field mq (str ''collection''))
                 (js_or (field mq (str ''filter'')) (JObj []))
                 (Some (min (if n = 0 then 100 else n) 1000)))])
       \<and> reply_field (mongoReply env result) (str ''hasMore'') = None
       \<and> reply_field (mongoReply env result) (str ''totalRows'') = None"
proof -
  have op: "js_or (field mq (str ''operation'')) (JStr (str ''find'')) = JStr (str ''find'')"
    using assms by (auto simp: js_or_def)
  have nolimit: "js_or (field mq (str ''limit'')) (JNum 100) = JNum 100"
    if "map_of mq (str ''limit'') = None"
    using that by (simp add: field_def js_or_def)
  have limit: "js_or (field mq (str ''limit'')) (JNum 100) = JNum (if n = 0 then 100 else n)"
    if "field mq (str ''limit'') = JNum n"
    using that by (simp add: js_or_def)
  have keys: "reply_field (mongoReply env result) (str ''hasMore'') = None"
    "reply_field (mongoReply env result) (str ''totalRows'') = None"
    by (simp_all add: mongoReply_def Let_def split: prod.splits mongo_result.splits)
  have a: "snd (mongoOperation env h mq) =
              [Call h (Find (field mq (str ''collection''))
                 (js_or (field mq (str ''filter'')) (JObj [])) (Some 100))]"
    if "map_of mq (str ''limit'') = None"
    by (simp add: mongoOperation_def Let_def op nolimit [OF that] ToNumber_def Math_min_def
        maxResultRows_def)
  have b: "fst (mongoOperation env h mq) = Returns (ResultArray (take 100 matching))"
    if "map_of mq (str ''limit'') = None"
      and "cursor_toArray env h (Find (field mq (str ''collection''))
                 (js_or (field mq (str ''filter'')) (JObj [])) (Some 100))
                = Settles t (Inr (take 100 matching))"
      and "t < queryTimeout"
    using that(2,3)
    by (simp add: mongoOperation_def Let_def op nolimit [OF that(1)] ToNumber_def Math_min_def
        maxResultRows_def withTimeout_def)
  have c: "reply_field (mongoReply env (ResultArray (take 100 matching))) (str ''rows'')
                  = Some (JArr (map JObj (take 100 matching)))
        \<and> length (take 100 matching) = 100
        \<and> reply_field (mongoReply env (ResultArray (take 100 matching))) (str ''rowCount'')
                  = Some (JNum 100)"
    if "length matching > 100"
    using that by (simp add: mongoReply_def Let_def maxResultRows_def)
  have d: "snd (mongoOperation env h mq) =
              [Call h (Find (field mq (str ''collection''))
                 (js_or (field mq (str ''filter'')) (JObj []))
                 (Some (min (if n = 0 then 100 else n) 1000)))]"
    if "field mq (str ''limit'') = JNum n"
    by (simp add: mongoOperation_def Let_def op limit [OF that] ToNumber_def Math_min_def
        maxResultRows_def)
  from a b c d keys show ?thesis by blast
qed

theorem find_default_limit_witness:
  \<open>queryRoute sample_env
      \<lparr>connectionString = Some (str ''mongodb://h/db''),
       query = JStr (str ''{"collection":"users"}''), dbType = None\<rparr> empty_registry
     = (Some (mongoReply sample_env (ResultArray (take 100 sample_documents))),
        \<lparr>pools = Map.empty, mongoClients = [str ''mongodb://h/db'' \<mapsto> MongoClient 0],
         allocated = 1\<rparr>,
        [NewMongoClient (str ''mongodb://h/db''), Connect (MongoClient 0),
         GetCollection (MongoClient 0) (JStr (str ''users'')),
         Call (MongoClient 0) (Find (JStr (str ''users'')) (JObj []) (Some 100))])
   \<and> length sample_documents = 1001
   \<and> length (take 100 sample_documents) = 100
   \<and> reply_field (mongoReply sample_env (ResultArray (take 100 sample_documents)))
        (str ''rowCount'') = Some (JNum 100)
   \<and> reply_field (mongoReply sample_env (ResultArray (take 100 sample_documents)))
        (str ''hasMore'') = None
   \<and> snd (mongoOperation sample_env (MongoClient 0)
        [(str ''collection'', JStr (str ''users'')), (str ''limit'', JNum 5000)])
      = [Call (MongoClient 0) (Find (JStr (str ''users'')) (JObj []) (Some 1000))]\<close>
proof -
  let ?mq = "[(str ''collection'', JStr (str ''users''))]"
  let ?mq2 = "[(str ''collection'', JStr (str ''users'')), (str ''limit'', JNum 5000)]"
  have k1: "field ?mq2 (str ''operation'') = JUndefined
           \<or> field ?mq2 (str ''operation'') = JStr (str ''find'')"
    by (simp add: field_def)
  have k2: "field ?mq2 (str ''limit'') = JNum 5000"
    by (simp add: field_def)
  from k2 find_default_limit [where mq = ?mq2 and n = 5000 and env = sample_env
      and h = "MongoClient 0", OF k1]
  have "snd (mongoOperation sample_env (MongoClient 0) ?mq2) =
      [Call (MongoClient 0) (Find (field ?mq2 (str ''collection''))
         (js_or (field ?mq2 (str ''filter'')) (JObj []))
         (Some (min (if (5000 :: int) = 0 then 100 else 5000) 1000)))]"
    by blast
  then have capped: "snd (mongoOperation sample_env (MongoClient 0) ?mq2)
      = [Call (MongoClient 0) (Find (JStr (str ''users'')) (JObj []) (Some 1000))]"
    by (simp add: field_def js_or_def)
  have h1: "field ?mq (str ''operation'') = JUndefined
           \<or> field ?mq (str ''operation'') = JStr (str ''find'')"
    by (simp add: field_def)
  have h2: "map_of ?mq (str ''limit'') = None" by simp
  have h3: "cursor_toArray sample_env (MongoClient 0)
        (Find (field ?mq (str ''collection'')) (js_or (field ?mq (str ''filter'')) (JObj []))
           (Some 100))
      = Settles 5 (Inr (take 100 sample_documents))
      \<and> 5 < queryTimeout \<and> length sample_documents > 100"
    by (simp add: field_def js_or_def queryTimeout_def sample_documents_def)
  note inst = find_default_limit [OF h1, of sample_env "MongoClient 0" 5 sample_documents 0
      "ResultArray (take 100 sample_documents)"]
  from inst h2 h3 have res:
    "fst (mongoOperation sample_env (MongoClient 0) ?mq)
       = Returns (ResultArray (take 100 sample_documents))"
    "snd (mongoOperation sample_env (MongoClient 0) ?mq)
       = [Call (MongoClient 0) (Find (field ?mq (str ''collection''))
            (js_or (field ?mq (str ''filter'')) (JObj [])) (Some 100))]"
    "length (take 100 sample_documents) = 100"
    "reply_field (mongoReply sample_env (ResultArray (take 100 sample_documents)))
        (str ''rowCount'') = Some (JNum 100)"
    "reply_field (mongoReply sample_env (ResultArray (take 100 sample_documents)))
        (str ''hasMore'') = None"
    by blast+
  have op: "mongoOperation sample_env (MongoClient 0) ?mq
      = (Returns (ResultArray (take 100 sample_documents)),
         [Call (MongoClient 0) (Find (JStr (str ''users'')) (JObj []) (Some 100))])"
    using res(1,2) by (simp add: prod_eq_iff field_def js_or_def)
  have route: \<open>queryRoute sample_env
      \<lparr>connectionString = Some (str ''mongodb://h/db''),
       query = JStr (str ''{"collection":"users"}''), dbType = None\<rparr> empty_registry
     = (Some (mongoReply sample_env (ResultArray (take 100 sample_documents))),
        \<lparr>pools = Map.empty, mongoClients = [str ''mongodb://h/db'' \<mapsto> MongoClient 0],
         allocated = 1\<rparr>,
        [NewMongoClient (str ''mongodb://h/db''), Connect (MongoClient 0),
         GetCollection (MongoClient 0) (JStr (str ''users'')),
         Call (MongoClient 0) (Find (JStr (str ''users'')) (JObj []) (Some 100))])\<close>
    by (subst queryRoute_mongodb [where cs = "str ''mongodb://h/db''"
          and v = \<open>str ''{"collection":"users"}''\<close>])
       (simp_all add: getDatabaseType_mongodb validateQuery_find mongodbCase_def
          mongodbTry_def getMongoClient_sample parse_find op field_def)
  have "length sample_documents = 1001" by (simp add: sample_documents_def)
  with route res capped show ?thesis by blast
qed

subsection \<open>Refusal of document-store payloads\<close>

lemma getMongoClient_calls:
  "getMongoClient env cs R = (c, R1, calls) \<Longrightarrow> \<not> list_ex onCollection calls"
  by (auto simp: getMongoClient_unfold Let_def split: option.splits completion.splits)

lemma closeMongoClient_calls:
  "closeMongoClient env cs R = (c, R1, calls) \<Longrightarrow> \<not> list_ex onCollection calls"
  by (auto simp: closeMongoClient_def split: option.splits completion.splits)

lemma parseMongoQuery_refused:
  assumes "P q = None \<or> (\<exists>v. P q = Some v \<and> (lacksCollection v \<or> namesUnlistedOperation v))"
  shows "\<exists>e. parseMongoQuery P q = Inl e"
proof (cases "P q")
  case None
  then show ?thesis by (simp add: parseMongoQuery_def)
next
  case (Some v)
  with assms have "lacksCollection v \<or> namesUnlistedOperation v" by simp
  with Some show ?thesis
    by (cases v)
       (auto simp: parseMongoQuery_def lacksCollection_def namesUnlistedOperation_def Let_def)
qed

lemma mongodbTry_refused:
  assumes "parseMongoQuery (JSON_parse env) q = Inl e"
    and "mongodbTry env cs q R = (c, R1, calls)"
  shows "(\<forall>r. c \<noteq> Returns r) \<and> \<not> list_ex onCollection calls"
proof (cases "getMongoClient env cs R")
  case (fields c0 R0 calls0)
  then have "\<not> list_ex onCollection calls0" by (rule getMongoClient_calls)
  with fields assms show ?thesis
    by (cases c0) (auto simp: mongodbTry_def)
qed

lemma getMongoClient_Returns:
  "getMongoClient env cs R = (Returns client, R1, calls0) \<Longrightarrow> mongoClients R1 cs = Some client"
  by (auto simp: getMongoClient_unfold Let_def split: option.splits completion.splits)

lemma getMongoClient_Throws:
  "getMongoClient env cs R = (Throws e, R1, calls0) \<Longrightarrow> mongoClients R1 cs = None"
  by (auto simp: getMongoClient_unfold Let_def split: option.splits completion.splits)

text \<open>
  C5, as the code has it. A payload that does not parse, that has no (truthy) collection,
  or whose operation is truthy and not on the list is refused by \<open>parseMongoQuery\<close>, and
  the \<^verbatim>\<open>mongodb\<close> case then produces no response of its own and makes no call on a
  collection. The client is fetched first: the driver calls of the case are those of the
  lookup (the constructor and \<^verbatim>\<open>connect()\<close> when the string was not cached), followed by
  the \<^verbatim>\<open>close()\<close> of the client, whose entry is deleted before the error of the parser is
  thrown on; when the lookup itself throws or never settles, the payload is not looked at.
  A payload with a collection and no operation, or a falsy one, is accepted and executed as
  \<^verbatim>\<open>find\<close>.
\<close>

theorem parseMongoQuery_fails_closed:
  "(JSON_parse env q = None
      \<or> (\<exists>v. JSON_parse env q = Some v \<and> (lacksCollection v \<or> namesUnlistedOperation v))
    \<longrightarrow> (\<exists>e. parseMongoQuery (JSON_parse env) q = Inl e)
        \<and> (\<forall>r. fst (mongodbCase env cs q R) \<noteq> Returns r)
        \<and> \<not> list_ex onCollection (snd (snd (mongodbCase env cs q R))))
   \<and> (JSON_parse env q = Some (JObj mq) \<and> truthy (field mq (str ''collection''))
        \<and> \<not> truthy (field mq (str ''operation''))
    \<longrightarrow> parseMongoQuery (JSON_parse env) q = Inr mq
        \<and> (\<exists>limit. snd (mongoOperation env h mq) =
              [Call h (Find (field mq (str ''collection''))
                 (js_or (field mq (str ''filter'')) (JObj [])) limit)]))
   \<and> ((JSON_parse env q = None
        \<or> (\<exists>v. JSON_parse env q = Some v \<and> (lacksCollection v \<or> namesUnlistedOperation v)))
       \<and> getMongoClient env cs R = (Returns client, R1, calls0)
    \<longrightarrow> mongoClients R1 cs = Some client
        \<and> (\<exists>e. parseMongoQuery (JSON_parse env) q = Inl e
              \<and> mongodbTry env cs q R = (Throws e, R1, calls0)
              \<and> (client_close env client = Never \<longrightarrow>
                    mongodbCase env cs q R = (Pending, R1, calls0 @ [Close client]))
              \<and> (client_close env client \<noteq> Never \<longrightarrow>
                    mongodbCase env cs q R =
                      (Throws e, R1\<lparr>mongoClients := (mongoClients R1)(cs := None)\<rparr>,
                       calls0 @ [Close client]))))
   \<and> (mongoClients R cs = None \<and> new_MongoClient env cs = None
       \<and> client_connect env (MongoClient (allocated R)) = Settles t (Inr ())
    \<longrightarrow> fst (getMongoClient env cs R) = Returns (MongoClient (allocated R))
        \<and> snd (snd (getMongoClient env cs R))
            = [NewMongoClient cs, Connect (MongoClient (allocated R))])
   \<and> (getMongoClient env cs R = (Throws e0, R1, calls0)
    \<longrightarrow> mongodbCase env cs q R = (Throws e0, R1, calls0))
   \<and> (getMongoClient env cs R = (Pending, R1, calls0)
    \<longrightarrow> mongodbCase env cs q R = (Pending, R1, calls0))"
proof (intro conjI impI)
  assume bad: "JSON_parse env q = None
      \<or> (\<exists>v. JSON_parse env q = Some v \<and> (lacksCollection v \<or> namesUnlistedOperation v))"
  then obtain e where e: "parseMongoQuery (JSON_parse env) q = Inl e"
    using parseMongoQuery_refused by blast
  then show "\<exists>e. parseMongoQuery (JSON_parse env) q = Inl e" by blast
  obtain c R1 calls where t: "mongodbTry env cs q R = (c, R1, calls)"
    by (cases "mongodbTry env cs q R") auto
  from mongodbTry_refused [OF e t]
  have c: "\<forall>r. c \<noteq> Returns r" and calls: "\<not> list_ex onCollection calls" by simp_all
  obtain c2 R2 calls2 where cl: "closeMongoClient env cs R1 = (c2, R2, calls2)"
    by (cases "closeMongoClient env cs R1") auto
  then have calls2: "\<not> list_ex onCollection calls2" by (rule closeMongoClient_calls)
  from c show "\<forall>r. fst (mongodbCase env cs q R) \<noteq> Returns r"
    by (cases c; cases c2) (simp_all add: mongodbCase_def t cl)
  from c calls calls2 show "\<not> list_ex onCollection (snd (snd (mongodbCase env cs q R)))"
    by (cases c; cases c2) (simp_all add: mongodbCase_def t cl)
next
  assume ok: "JSON_parse env q = Some (JObj mq) \<and> truthy (field mq (str ''collection''))
        \<and> \<not> truthy (field mq (str ''operation''))"
  then show "parseMongoQuery (JSON_parse env) q = Inr mq"
    by (simp add: parseMongoQuery_def Let_def)
  from ok have op: "js_or (field mq (str ''operation'')) (JStr (str ''find'')) = JStr (str ''find'')"
    by (simp add: js_or_def)
  show "\<exists>limit. snd (mongoOperation env h mq) =
              [Call h (Find (field mq (str ''collection''))
                 (js_or (field mq (str ''filter'')) (JObj [])) limit)]"
    by (simp add: mongoOperation_def Let_def op)
next
  assume a: "(JSON_parse env q = None
        \<or> (\<exists>v. JSON_parse env q = Some v \<and> (lacksCollection v \<or> namesUnlistedOperation v)))
       \<and> getMongoClient env cs R = (Returns client, R1, calls0)"
  then obtain e where e: "parseMongoQuery (JSON_parse env) q = Inl e"
    using parseMongoQuery_refused by blast
  from a have g: "getMongoClient env cs R = (Returns client, R1, calls0)" by simp
  then show cached: "mongoClients R1 cs = Some client" by (rule getMongoClient_Returns)
  have t: "mongodbTry env cs q R = (Throws e, R1, calls0)"
    by (simp add: mongodbTry_def g e)
  have pending: "mongodbCase env cs q R = (Pending, R1, calls0 @ [Close client])"
    if "client_close env client = Never"
    using that by (simp add: mongodbCase_def t closeMongoClient_def cached)
  have thrown: "mongodbCase env cs q R =
      (Throws e, R1\<lparr>mongoClients := (mongoClients R1)(cs := None)\<rparr>, calls0 @ [Close client])"
    if "client_close env client \<noteq> Never"
    using that
    by (cases "client_close env client" rule: await.cases)
       (simp_all add: mongodbCase_def t closeMongoClient_def cached)
  from e t pending thrown
  show "\<exists>e. parseMongoQuery (JSON_parse env) q = Inl e
              \<and> mongodbTry env cs q R = (Throws e, R1, calls0)
              \<and> (client_close env client = Never \<longrightarrow>
                    mongodbCase env cs q R = (Pending, R1, calls0 @ [Close client]))
              \<and> (client_close env client \<noteq> Never \<longrightarrow>
                    mongodbCase env cs q R =
                      (Throws e, R1\<lparr>mongoClients := (mongoClients R1)(cs := None)\<rparr>,
                       calls0 @ [Close client]))"
    by blast
next
  assume "mongoClients R cs = None \<and> new_MongoClient env cs = None
       \<and> client_connect env (MongoClient (allocated R)) = Settles t (Inr ())"
  then show "fst (getMongoClient env cs R) = Returns (MongoClient (allocated R))"
    and "snd (snd (getMongoClient env cs R))
            = [NewMongoClient cs, Connect (MongoClient (allocated R))]"
    by (simp_all add: getMongoClient_unfold Let_def)
next
  assume g: "getMongoClient env cs R = (Throws e0, R1, calls0)"
  then have "mongoClients R1 cs = None" by (rule getMongoClient_Throws)
  then show "mongodbCase env cs q R = (Throws e0, R1, calls0)"
    by (simp add: mongodbCase_def mongodbTry_def g closeMongoClient_def)
next
  assume g: "getMongoClient env cs R = (Pending, R1, calls0)"
  then show "mongodbCase env cs q R = (Pending, R1, calls0)"
    by (simp add: mongodbCase_def mongodbTry_def g)
qed

lemma parse_drop:
  \<open>sample_parse (str ''{"collection":"users","operation":"drop"}'')
     = Some (JObj [(str ''collection'', JStr (str ''users'')),
                   (str ''operation'', JStr (str ''drop''))])\<close>
  by (simp add: sample_parse_def)

theorem parseMongoQuery_fails_closed_witness:
  \<open>(\<exists>e. parseMongoQuery (JSON_parse sample_env) (str ''{"collection":"users","operation":"drop"}'')
         = Inl e)
   \<and> \<not> list_ex onCollection (snd (snd (mongodbCase sample_env (str ''mongodb://h/db'')
         (str ''{"collection":"users","operation":"drop"}'') empty_registry)))
   \<and> parseMongoQuery (JSON_parse sample_env) (str ''{"collection":"users"}'')
       = Inr [(str ''collection'', JStr (str ''users''))]
   \<and> (\<exists>limit. snd (mongoOperation sample_env (MongoClient 0) [(str ''collection'', JStr (str ''users''))])
         = [Call (MongoClient 0) (Find (JStr (str ''users'')) (JObj []) limit)])
   \<and> (\<exists>e. parseMongoQuery (JSON_parse sample_env) (str ''{"collection":"users","operation":"drop"}'')
           = Inl e
         \<and> mongodbCase sample_env (str ''mongodb://h/db'')
             (str ''{"collection":"users","operation":"drop"}'') empty_registry
           = (Throws e, \<lparr>pools = Map.empty, mongoClients = Map.empty, allocated = 1\<rparr>,
              [NewMongoClient (str ''mongodb://h/db''), Connect (MongoClient 0),
               Close (MongoClient 0)]))
   \<and> snd (snd (getMongoClient sample_env (str ''mongodb://h/db'') empty_registry))
       = [NewMongoClient (str ''mongodb://h/db''), Connect (MongoClient 0)]
   \<and> mongodbCase (sample_env\<lparr>client_connect := \<lambda>h. Settles 1 (Inl (Error (str ''refused'')))\<rparr>)
         (str ''mongodb://h/db'') (str ''{"collection":"users","operation":"drop"}'') empty_registry
       = (Throws (Error (str ''refused'')), empty_registry\<lparr>allocated := 1\<rparr>,
          [NewMongoClient (str ''mongodb://h/db''), Connect (MongoClient 0)])
   \<and> mongodbCase (sample_env\<lparr>client_connect := \<lambda>h. Never\<rparr>)
         (str ''mongodb://h/db'') (str ''{"collection":"users","operation":"drop"}'') empty_registry
       = (Pending, empty_registry\<lparr>allocated := 1\<rparr>,
          [NewMongoClient (str ''mongodb://h/db''), Connect (MongoClient 0)])\<close>
proof -
  let ?bad = \<open>str ''{"collection":"users","operation":"drop"}''\<close>
  let ?cs = "str ''mongodb://h/db''"
  let ?v = "JObj [(str ''collection'', JStr (str ''users'')), (str ''operation'', JStr (str ''drop''))]"
  let ?mq = "[(str ''collection'', JStr (str ''users''))]"
  let ?R1 = "\<lparr>pools = Map.empty, mongoClients = [?cs \<mapsto> MongoClient 0], allocated = 1\<rparr>"
  let ?calls = "[NewMongoClient ?cs, Connect (MongoClient 0)]"
  let ?refusing = "sample_env\<lparr>client_connect := \<lambda>h. Settles 1 (Inl (Error (str ''refused'')))\<rparr>"
  let ?hanging = "sample_env\<lparr>client_connect := \<lambda>h. Never\<rparr>"
  have "namesUnlistedOperation ?v"
    by (simp add: namesUnlistedOperation_def field_def validOperations_def)
  then have h1: "JSON_parse sample_env ?bad = None
      \<or> (\<exists>v. JSON_parse sample_env ?bad = Some v \<and> (lacksCollection v \<or> namesUnlistedOperation v))"
    by (simp add: parse_drop)
  have h2: \<open>JSON_parse sample_env (str ''{"collection":"users"}'') = Some (JObj ?mq)
      \<and> truthy (field ?mq (str ''collection'')) \<and> \<not> truthy (field ?mq (str ''operation''))\<close>
    by (simp add: sample_parse_def field_def)
  have h3: "(JSON_parse sample_env ?bad = None
      \<or> (\<exists>v. JSON_parse sample_env ?bad = Some v \<and> (lacksCollection v \<or> namesUnlistedOperation v)))
      \<and> getMongoClient sample_env ?cs empty_registry = (Returns (MongoClient 0), ?R1, ?calls)"
    using h1 by (simp add: getMongoClient_sample)
  have h4: "mongoClients empty_registry ?cs = None \<and> new_MongoClient sample_env ?cs = None
      \<and> client_connect sample_env (MongoClient (allocated empty_registry)) = Settles 1 (Inr ())"
    by (simp add: empty_registry_def)
  have h5: "getMongoClient ?refusing ?cs empty_registry
      = (Throws (Error (str ''refused'')), empty_registry\<lparr>allocated := 1\<rparr>, ?calls)"
    by (simp add: getMongoClient_unfold empty_registry_def Let_def)
  have h6: "getMongoClient ?hanging ?cs empty_registry
      = (Pending, empty_registry\<lparr>allocated := 1\<rparr>, ?calls)"
    by (simp add: getMongoClient_unfold empty_registry_def Let_def)
  note thm1 = parseMongoQuery_fails_closed [where env = sample_env and q = ?bad and cs = ?cs
      and R = empty_registry and client = "MongoClient 0" and ?R1.0 = ?R1 and ?calls0.0 = ?calls
      and t = 1]
  have a: "(\<exists>e. parseMongoQuery (JSON_parse sample_env) ?bad = Inl e)
      \<and> (\<forall>r. fst (mongodbCase sample_env ?cs ?bad empty_registry) \<noteq> Returns r)
      \<and> \<not> list_ex onCollection (snd (snd (mongodbCase sample_env ?cs ?bad empty_registry)))"
    by (rule thm1 [THEN conjunct1, THEN mp, OF h1])
  from h2 parseMongoQuery_fails_closed [where env = sample_env and q = \<open>str ''{"collection":"users"}''\<close>
      and mq = ?mq and h = "MongoClient 0"]
  have b: \<open>parseMongoQuery (JSON_parse sample_env) (str ''{"collection":"users"}'') = Inr ?mq
      \<and> (\<exists>limit. snd (mongoOperation sample_env (MongoClient 0) ?mq)
            = [Call (MongoClient 0) (Find (field ?mq (str ''collection''))
                 (js_or (field ?mq (str ''filter'')) (JObj [])) limit)])\<close>
    by blast
  have c: "\<exists>e. parseMongoQuery (JSON_parse sample_env) ?bad = Inl e
       \<and> mongodbCase sample_env ?cs ?bad empty_registry
           = (Throws e, \<lparr>pools = Map.empty, mongoClients = Map.empty, allocated = 1\<rparr>,
              ?calls @ [Close (MongoClient 0)])"
    using thm1 [THEN conjunct2, THEN conjunct2, THEN conjunct1, THEN mp, OF h3]
    by auto
  have d: "snd (snd (getMongoClient sample_env ?cs empty_registry)) = ?calls"
    using thm1 [THEN conjunct2, THEN conjunct2, THEN conjunct2, THEN conjunct1, THEN mp, OF h4]
    by (simp add: empty_registry_def)
  have e: "mongodbCase ?refusing ?cs ?bad empty_registry
      = (Throws (Error (str ''refused'')), empty_registry\<lparr>allocated := 1\<rparr>, ?calls)"
    by (rule parseMongoQuery_fails_closed [THEN conjunct2, THEN conjunct2, THEN conjunct2,
          THEN conjunct2, THEN conjunct1, THEN mp, OF h5])
  have f: "mongodbCase ?hanging ?cs ?bad empty_registry
      = (Pending, empty_registry\<lparr>allocated := 1\<rparr>, ?calls)"
    by (rule parseMongoQuery_fails_closed [THEN conjunct2, THEN conjunct2, THEN conjunct2,
          THEN conjunct2, THEN conjunct2, THEN mp, OF h6])
  from a b c d e f show ?thesis by (simp add: field_def js_or_def)
qed

text \<open>
  The claim as it is worded fails twice. A payload that is not JSON is refused only after
  the client has been created and connected (and it is then closed again): three driver
  calls. And the operation \<^verbatim>\<open>""\<close>, which is not on the list, is accepted and run as
  \<^verbatim>\<open>find\<close>.
\<close>

theorem refused_after_connecting:
  \<open>sample_parse (str ''not json'') = None
   \<and> snd (snd (queryRoute sample_env
        \<lparr>connectionString = Some (str ''mongodb://h/db''), query = JStr (str ''not json''),
         dbType = None\<rparr> empty_registry))
      = [NewMongoClient (str ''mongodb://h/db''), Connect (MongoClient 0), Close (MongoClient 0)]
   \<and> JStr [] \<notin> set (map JStr validOperations)
   \<and> parseMongoQuery sample_parse (str ''{"collection":"users","operation":""}'')
      = Inr [(str ''collection'', JStr (str ''users'')), (str ''operation'', JStr [])]
   \<and> snd (mongoOperation sample_env (MongoClient 0)
        [(str ''collection'', JStr (str ''users'')), (str ''operation'', JStr [])])
      = [Call (MongoClient 0) (Find (JStr (str ''users'')) (JObj []) (Some 100))]\<close>
proof -
  have p: "sample_parse (str ''not json'') = None"
    by (simp add: sample_parse_def)
  have v: "validateQuery (JStr (str ''not json'')) t = Inr (str ''not json'')" for t
    by (simp add: validateQuery_def trim_def isWhiteSpace_def str_def)
  have route: \<open>snd (snd (queryRoute sample_env
        \<lparr>connectionString = Some (str ''mongodb://h/db''), query = JStr (str ''not json''),
         dbType = None\<rparr> empty_registry))
      = [NewMongoClient (str ''mongodb://h/db''), Connect (MongoClient 0), Close (MongoClient 0)]\<close>
    by (subst queryRoute_mongodb [where cs = "str ''mongodb://h/db''" and v = "str ''not json''"])
       (simp_all add: getDatabaseType_mongodb v mongodbCase_def mongodbTry_def
          getMongoClient_sample parseMongoQuery_def p closeMongoClient_def)
  have l: "JStr [] \<notin> set (map JStr validOperations)"
    by (simp add: validOperations_def)
  have q: \<open>parseMongoQuery sample_parse (str ''{"collection":"users","operation":""}'')
      = Inr [(str ''collection'', JStr (str ''users'')), (str ''operation'', JStr [])]\<close>
    by (simp add: parseMongoQuery_def sample_parse_def field_def)
  have f: "snd (mongoOperation sample_env (MongoClient 0)
        [(str ''collection'', JStr (str ''users'')), (str ''operation'', JStr [])])
      = [Call (MongoClient 0) (Find (JStr (str ''users'')) (JObj []) (Some 100))]"
    by (simp add: mongoOperation_def Let_def field_def js_or_def ToNumber_def Math_min_def
        maxResultRows_def)
  from p route l q f show ?thesis by blast
qed

subsection \<open>Eviction of a failed document-store client\<close>

lemma getMongoClient_frame:
  assumes "getMongoClient env cs R = (c, R1, calls)"
  shows "pools R1 = pools R"
    and "k \<noteq> cs \<Longrightarrow> mongoClients R1 k = mongoClients R k"
    and "mongoClients R cs = Some h \<Longrightarrow> R1 = R \<and> c = Returns h \<and> calls = []"
  using assms
  by (auto simp: getMongoClient_unfold Let_def split: option.splits completion.splits)

lemma mongodbTry_registry:
  assumes "mongodbTry env cs q R = (c, R1, calls)"
  shows "R1 = fst (snd (getMongoClient env cs R))"
proof (cases "getMongoClient env cs R")
  case (fields c0 R0 calls0)
  with assms show ?thesis
    by (cases c0)
       (auto simp: mongodbTry_def Let_def split: sum.splits option.splits prod.splits)
qed

lemma mongodbTry_frame:
  assumes "mongodbTry env cs q R = (c, R1, calls)"
  shows "pools R1 = pools R"
    and "k \<noteq> cs \<Longrightarrow> mongoClients R1 k = mongoClients R k"
    and "mongoClients R cs = Some h \<Longrightarrow> R1 = R"
proof -
  obtain c0 calls0 where g: "getMongoClient env cs R = (c0, R1, calls0)"
    using mongodbTry_registry [OF assms] by (cases "getMongoClient env cs R") auto
  show "pools R1 = pools R"
    and "k \<noteq> cs \<Longrightarrow> mongoClients R1 k = mongoClients R k"
    and "mongoClients R cs = Some h \<Longrightarrow> R1 = R"
    using getMongoClient_frame [OF g] by simp_all
qed

lemma closeMongoClient_evicts:
  assumes "closeMongoClient env cs R1 = (c, R2, calls)" and "c \<noteq> Pending"
  shows "mongoClients R2 cs = None"
    and "pools R2 = pools R1"
    and "k \<noteq> cs \<Longrightarrow> mongoClients R2 k = mongoClients R1 k"
    and "calls = (case mongoClients R1 cs of Some h \<Rightarrow> [Close h] | None \<Rightarrow> [])"
  using assms
  by (auto simp: closeMongoClient_def split: option.splits completion.splits)

lemma mongodbCase_Throws:
  assumes "mongodbCase env cs q R = (Throws e, R2, calls)"
  obtains R1 calls1 c2 calls2 where "mongodbTry env cs q R = (Throws e, R1, calls1)"
    and "closeMongoClient env cs R1 = (c2, R2, calls2)" and "c2 \<noteq> Pending"
    and "calls = calls1 @ calls2"
proof -
  obtain c R1 calls1 where t: "mongodbTry env cs q R = (c, R1, calls1)"
    by (cases "mongodbTry env cs q R") auto
  obtain c2 R2' calls2 where cl: "closeMongoClient env cs R1 = (c2, R2', calls2)"
    by (cases "closeMongoClient env cs R1") auto
  from assms t cl have "c = Throws e \<and> R2' = R2 \<and> c2 \<noteq> Pending \<and> calls = calls1 @ calls2"
    by (cases c; cases c2) (auto simp: mongodbCase_def)
  with t cl that show ?thesis by blast
qed

lemma getMongoClient_uncached:
  assumes "mongoClients R cs = None"
  shows "\<exists>c R1 more. getMongoClient env cs R = (c, R1, NewMongoClient cs # more)"
  using assms
  by (auto simp: getMongoClient_unfold Let_def split: option.splits completion.splits)

lemma status_errorReply [simp]: "status (errorReply env e) = 500"
  by (simp add: errorReply_def Let_def split: prod.splits)

lemma status_mongoReply [simp]: "status (mongoReply env r) = 200"
  by (simp add: mongoReply_def Let_def split: prod.splits)

lemma map_completion_Returns:
  "map_completion f x = Returns r \<longleftrightarrow> (\<exists>y. x = Returns y \<and> r = f y)"
  by (cases x) auto

lemma mongodbTry_Returns:
  assumes "mongodbTry env cs q R = (Returns r, R1, calls)"
  shows "status r = 200"
proof (cases "getMongoClient env cs R")
  case (fields c0 R0 calls0)
  with assms show ?thesis
    by (cases c0)
       (auto simp: mongodbTry_def Let_def map_completion_Returns
          split: sum.splits option.splits prod.splits completion.splits)
qed

text \<open>
  What a throw leaves behind. Whenever the \<^verbatim>\<open>mongodb\<close> case of \<^verbatim>\<open>/api/query\<close> ends by
  throwing, the registry it leaves has no client for the connection string; a client that was cached when the error
  arose has been closed, as the last driver call of the request; the pools and the clients
  of other connection strings are as they were; and the next lookup for the same string
  creates a new client. At the level of the route: a request that is answered by the
  \<^verbatim>\<open>mongodb\<close> case with anything but a success leaves no client for its connection
  string.
\<close>

lemma mongodb_throw_leaves_no_client:
  "(mongodbCase env cs q R = (Throws e, R', calls) \<longrightarrow>
      mongoClients R' cs = None
      \<and> (\<forall>h. mongoClients R cs = Some h \<longrightarrow> (\<exists>before. calls = before @ [Close h]))
      \<and> (\<forall>R1 calls1 h. mongodbTry env cs q R = (Throws e, R1, calls1)
            \<and> mongoClients R1 cs = Some h \<longrightarrow> calls = calls1 @ [Close h])
      \<and> pools R' = pools R
      \<and> (\<forall>k. k \<noteq> cs \<longrightarrow> mongoClients R' k = mongoClients R k)
      \<and> (\<forall>env'. \<exists>c R'' more. getMongoClient env' cs R' = (c, R'', NewMongoClient cs # more))
      \<and> (\<forall>env'. new_MongoClient env' cs = None \<longrightarrow>
            snd (snd (getMongoClient env' cs R'))
              = [NewMongoClient cs, Connect (MongoClient (allocated R'))]))
   \<and> (connectionString body = Some cs \<and> cs \<noteq> [] \<and> dbType body = None
       \<and> getDatabaseType cs = str ''mongodb''
       \<and> validateQuery (query body) (str ''mongodb'') = Inr v
       \<and> queryRoute env body R = (Some r, R2, calls2) \<and> status r \<noteq> 200
      \<longrightarrow> mongoClients R2 cs = None)"
proof (intro conjI impI)
  assume th: "mongodbCase env cs q R = (Throws e, R', calls)"
  then obtain R1 calls1 c2 calls2 where t: "mongodbTry env cs q R = (Throws e, R1, calls1)"
    and cl: "closeMongoClient env cs R1 = (c2, R', calls2)" and c2: "c2 \<noteq> Pending"
    and calls: "calls = calls1 @ calls2"
    by (rule mongodbCase_Throws)
  note ev = closeMongoClient_evicts [OF cl c2]
  note fr = mongodbTry_frame [OF t]
  show none: "mongoClients R' cs = None" by (rule ev(1))
  show "\<forall>h. mongoClients R cs = Some h \<longrightarrow> (\<exists>before. calls = before @ [Close h])"
  proof (intro allI impI)
    fix h assume h: "mongoClients R cs = Some h"
    then have "R1 = R" by (rule fr(3))
    with h ev(4) calls show "\<exists>before. calls = before @ [Close h]" by simp
  qed
  show "\<forall>R1 calls1 h. mongodbTry env cs q R = (Throws e, R1, calls1)
            \<and> mongoClients R1 cs = Some h \<longrightarrow> calls = calls1 @ [Close h]"
    using t ev(4) calls by auto
  show "pools R' = pools R" using ev(2) fr(1) by simp
  show "\<forall>k. k \<noteq> cs \<longrightarrow> mongoClients R' k = mongoClients R k"
    using ev(3) fr(2) by simp
  show "\<forall>env'. \<exists>c R'' more. getMongoClient env' cs R' = (c, R'', NewMongoClient cs # more)"
    using getMongoClient_uncached [OF none] by blast
  show "\<forall>env'. new_MongoClient env' cs = None \<longrightarrow>
            snd (snd (getMongoClient env' cs R'))
              = [NewMongoClient cs, Connect (MongoClient (allocated R'))]"
    using none
    by (auto simp: getMongoClient_unfold Let_def split: completion.splits)
next
  assume a: "connectionString body = Some cs \<and> cs \<noteq> [] \<and> dbType body = None
       \<and> getDatabaseType cs = str ''mongodb''
       \<and> validateQuery (query body) (str ''mongodb'') = Inr v
       \<and> queryRoute env body R = (Some r, R2, calls2) \<and> status r \<noteq> 200"
  then have route: "queryRoute env body R =
     (case mongodbCase env cs v R of
        (Returns r, R1, calls) \<Rightarrow> (Some r, R1, calls)
      | (Throws error, R1, calls) \<Rightarrow> (Some (errorReply env error), R1, calls)
      | (Pending, R1, calls) \<Rightarrow> (None, R1, calls))"
    by (intro queryRoute_mongodb) simp_all
  obtain c R3 calls3 where m: "mongodbCase env cs v R = (c, R3, calls3)"
    by (cases "mongodbCase env cs v R") auto
  show "mongoClients R2 cs = None"
  proof (cases c)
    case (Returns r')
    with m have "mongodbTry env cs v R = (Returns r', R3, calls3)"
      by (auto simp: mongodbCase_def split: prod.splits completion.splits)
    then have "status r' = 200" by (rule mongodbTry_Returns)
    with a route m Returns show ?thesis by simp
  next
    case (Throws e')
    with m have th: "mongodbCase env cs v R = (Throws e', R3, calls3)" by simp
    then obtain R1 calls1 c2 calls2' where "closeMongoClient env cs R1 = (c2, R3, calls2')"
      and "c2 \<noteq> Pending"
      by (rule mongodbCase_Throws)
    then have "mongoClients R3 cs = None" by (rule closeMongoClient_evicts(1))
    with a route m Throws show ?thesis by simp
  next
    case Pending
    with a route m show ?thesis by simp
  qed
qed

lemma mongodb_throw_leaves_no_client_example:
  "mongodbCase sample_env (str ''mongodb://h/db'') (str ''not json'')
      \<lparr>pools = Map.empty, mongoClients = [str ''mongodb://h/db'' \<mapsto> MongoClient 7],
       allocated = 8\<rparr>
     = (Throws (Error (str ''Invalid MongoDB query format: Expected valid JSON'')),
        \<lparr>pools = Map.empty, mongoClients = Map.empty, allocated = 8\<rparr>,
        [Close (MongoClient 7)])
   \<and> (\<exists>c R'' more. getMongoClient sample_env (str ''mongodb://h/db'')
          \<lparr>pools = Map.empty, mongoClients = Map.empty, allocated = 8\<rparr>
        = (c, R'', NewMongoClient (str ''mongodb://h/db'') # more))
   \<and> queryRoute sample_env
        \<lparr>connectionString = Some (str ''mongodb://h/db''), query = JStr (str ''not json''),
         dbType = None\<rparr>
        \<lparr>pools = Map.empty, mongoClients = [str ''mongodb://h/db'' \<mapsto> MongoClient 7],
         allocated = 8\<rparr>
     = (Some (errorReply sample_env
          (Error (str ''Invalid MongoDB query format: Expected valid JSON''))),
        \<lparr>pools = Map.empty, mongoClients = Map.empty, allocated = 8\<rparr>,
        [Close (MongoClient 7)])"
proof -
  let ?cs = "str ''mongodb://h/db''"
  let ?R = "\<lparr>pools = Map.empty, mongoClients = [?cs \<mapsto> MongoClient 7], allocated = 8\<rparr>"
  let ?R' = "\<lparr>pools = Map.empty, mongoClients = Map.empty, allocated = 8\<rparr>"
  let ?e = "Error (str ''Invalid MongoDB query format: Expected valid JSON'')"
  let ?body = "\<lparr>connectionString = Some ?cs, query = JStr (str ''not json''), dbType = None\<rparr>"
  have p: "sample_parse (str ''not json'') = None"
    by (simp add: sample_parse_def)
  have v: "validateQuery (JStr (str ''not json'')) t = Inr (str ''not json'')" for t
    by (simp add: validateQuery_def trim_def isWhiteSpace_def str_def)
  have m: "mongodbCase sample_env ?cs (str ''not json'') ?R = (Throws ?e, ?R', [Close (MongoClient 7)])"
    by (simp add: mongodbCase_def mongodbTry_def getMongoClient_unfold parseMongoQuery_def p
        closeMongoClient_def)
  have route: "queryRoute sample_env ?body ?R
      = (Some (errorReply sample_env ?e), ?R', [Close (MongoClient 7)])"
    by (subst queryRoute_mongodb [where cs = ?cs and v = "str ''not json''"])
       (simp_all add: getDatabaseType_mongodb v m)
  have hyp: "connectionString ?body = Some ?cs \<and> ?cs \<noteq> [] \<and> dbType ?body = None
       \<and> getDatabaseType ?cs = str ''mongodb''
       \<and> validateQuery (query ?body) (str ''mongodb'') = Inr (str ''not json'')
       \<and> queryRoute sample_env ?body ?R = (Some (errorReply sample_env ?e), ?R', [Close (MongoClient 7)])
       \<and> status (errorReply sample_env ?e) \<noteq> 200"
    by (simp add: getDatabaseType_mongodb v route)
  from m hyp
    mongodb_throw_leaves_no_client [of sample_env ?cs "str ''not json''" ?R ?e ?R' "[Close (MongoClient 7)]"
      ?body "str ''not json''" "errorReply sample_env ?e" ?R' "[Close (MongoClient 7)]"]
  have "\<exists>c R'' more. getMongoClient sample_env ?cs ?R' = (c, R'', NewMongoClient ?cs # more)"
    by blast
  with m route show ?thesis by blast
qed

lemma closeMongoClient_cached:
  assumes "mongoClients R1 cs = Some client"
  shows "client_close env client = Never \<Longrightarrow>
           closeMongoClient env cs R1 = (Pending, R1, [Close client])"
    and "client_close env client \<noteq> Never \<Longrightarrow>
           closeMongoClient env cs R1
             = (Returns (), R1\<lparr>mongoClients := (mongoClients R1)(cs := None)\<rparr>, [Close client])"
proof -
  show "closeMongoClient env cs R1 = (Pending, R1, [Close client])"
    if "client_close env client = Never"
    using that assms by (simp add: closeMongoClient_def)
  show "closeMongoClient env cs R1
      = (Returns (), R1\<lparr>mongoClients := (mongoClients R1)(cs := None)\<rparr>, [Close client])"
    if "client_close env client \<noteq> Never"
    using that assms
    by (cases "client_close env client" rule: await.cases) (simp_all add: closeMongoClient_def)
qed

lemma mongodbCase_catch:
  assumes t: "mongodbTry env cs q R = (Throws e, R1, calls1)"
  shows "mongoClients R1 cs = Some client \<Longrightarrow> client_close env client \<noteq> Never \<Longrightarrow>
           mongodbCase env cs q R
             = (Throws e, R1\<lparr>mongoClients := (mongoClients R1)(cs := None)\<rparr>,
                calls1 @ [Close client])"
    and "mongoClients R1 cs = Some client \<Longrightarrow> client_close env client = Never \<Longrightarrow>
           mongodbCase env cs q R = (Pending, R1, calls1 @ [Close client])"
    and "mongoClients R1 cs = None \<Longrightarrow> mongodbCase env cs q R = (Throws e, R1, calls1)"
proof -
  show "mongodbCase env cs q R
      = (Throws e, R1\<lparr>mongoClients := (mongoClients R1)(cs := None)\<rparr>, calls1 @ [Close client])"
    if "mongoClients R1 cs = Some client" "client_close env client \<noteq> Never"
    using closeMongoClient_cached(2) [OF that] by (simp add: mongodbCase_def t)
  show "mongodbCase env cs q R = (Pending, R1, calls1 @ [Close client])"
    if "mongoClients R1 cs = Some client" "client_close env client = Never"
    using closeMongoClient_cached(1) [OF that] by (simp add: mongodbCase_def t)
  show "mongodbCase env cs q R = (Throws e, R1, calls1)" if "mongoClients R1 cs = None"
    using that by (simp add: mongodbCase_def t closeMongoClient_def)
qed

lemma mongoOperation_stalled:
  "mongoOperation stalled_env (MongoClient 7) [(str ''collection'', JStr (str ''users''))]
     = (Throws (Error (str ''MongoDB query timeout'')),
        [Call (MongoClient 7) (Find (JStr (str ''users'')) (JObj []) (Some 100))])"
proof -
  let ?mq = "[(str ''collection'', JStr (str ''users''))]"
  have late: "await (withTimeout (Never :: jsobj list promise) queryTimeout
        (str ''MongoDB query timeout''))
      = Throws (Error (str ''MongoDB query timeout''))"
    by (intro withTimeout_late) simp_all
  have op: "js_or (field ?mq (str ''operation'')) (JStr (str ''find'')) = JStr (str ''find'')"
    by (simp add: js_or_def field_def)
  have l: "Math_min (ToNumber stalled_env (js_or (field ?mq (str ''limit'')) (JNum 100)))
      (Some (int maxResultRows)) = Some 100"
    by (simp add: field_def js_or_def ToNumber_def Math_min_def maxResultRows_def)
  have f: "js_or (field ?mq (str ''filter'')) (JObj []) = JObj []"
    by (simp add: field_def js_or_def)
  have c: "field ?mq (str ''collection'') = JStr (str ''users'')"
    by (simp add: field_def)
  show ?thesis
    by (simp add: mongoOperation_def Let_def op late l f c)
qed

text \<open>
  C7. The inner \<^verbatim>\<open>catch\<close> of the \<^verbatim>\<open>mongodb\<close> case. When the body of the \<^verbatim>\<open>try\<close> throws
  and a client is cached for the connection string, the case makes one more driver call,
  the \<^verbatim>\<open>close()\<close> of that client; when \<^verbatim>\<open>close()\<close> settles (fulfilled or rejected) the
  entry is deleted and the same error is thrown on, so that the next lookup for the string
  constructs and connects a new client; while \<^verbatim>\<open>close()\<close> does not settle the error is not
  thrown on. Against a cached client the body throws when the payload is refused by
  \<^verbatim>\<open>parseMongoQuery\<close>, when \<^verbatim>\<open>db.collection\<close> throws, and when the operation throws (a
  rejected driver promise, or the timer of \<^verbatim>\<open>find\<close> and \<^verbatim>\<open>findOne\<close>); in each case nothing
  of the registry has changed when the \<^verbatim>\<open>catch\<close> is entered. The route answers such a
  request with the error response, after the \<^verbatim>\<open>close()\<close>, with the entry gone. Conversely,
  every throw of the case leaves no client for the string, and the pools and the clients
  of other strings as they were.
\<close>

theorem mongodb_error_evicts:
  "(mongodbTry env cs q R = (Throws e, R1, calls1) \<longrightarrow>
      (\<forall>client. mongoClients R1 cs = Some client \<longrightarrow>
         (client_close env client \<noteq> Never \<longrightarrow>
            mongodbCase env cs q R
              = (Throws e, R1\<lparr>mongoClients := (mongoClients R1)(cs := None)\<rparr>,
                 calls1 @ [Close client])
            \<and> (\<forall>env'. new_MongoClient env' cs = None \<longrightarrow>
                 snd (snd (getMongoClient env' cs (fst (snd (mongodbCase env cs q R)))))
                   = [NewMongoClient cs, Connect (MongoClient (allocated R1))]))
         \<and> (client_close env client = Never \<longrightarrow>
              mongodbCase env cs q R = (Pending, R1, calls1 @ [Close client])))
      \<and> (mongoClients R1 cs = None \<longrightarrow> mongodbCase env cs q R = (Throws e, R1, calls1)))
   \<and> (mongoClients R cs = Some client \<longrightarrow>
        getMongoClient env cs R = (Returns client, R, [])
        \<and> (parseMongoQuery (JSON_parse env) q = Inl e \<longrightarrow>
              mongodbTry env cs q R = (Throws e, R, []))
        \<and> (\<forall>mq. parseMongoQuery (JSON_parse env) q = Inr mq \<longrightarrow>
              (db_collection env client (field mq (str ''collection'')) = Some e \<longrightarrow>
                 mongodbTry env cs q R
                   = (Throws e, R, [GetCollection client (field mq (str ''collection''))]))
              \<and> (\<forall>calls2. db_collection env client (field mq (str ''collection'')) = None
                    \<and> mongoOperation env client mq = (Throws e, calls2) \<longrightarrow>
                    mongodbTry env cs q R
                      = (Throws e, R,
                         GetCollection client (field mq (str ''collection'')) # calls2))))
   \<and> (connectionString body = Some cs \<and> cs \<noteq> [] \<and> dbType body = None
       \<and> getDatabaseType cs = str ''mongodb''
       \<and> validateQuery (query body) (str ''mongodb'') = Inr q
       \<and> mongodbTry env cs q R = (Throws e, R1, calls1)
       \<and> mongoClients R1 cs = Some client \<and> client_close env client \<noteq> Never
      \<longrightarrow> queryRoute env body R
            = (Some (errorReply env e), R1\<lparr>mongoClients := (mongoClients R1)(cs := None)\<rparr>,
               calls1 @ [Close client]))
   \<and> (mongodbCase env cs q R = (Throws e, R', calls) \<longrightarrow>
      mongoClients R' cs = None
      \<and> (\<forall>h. mongoClients R cs = Some h \<longrightarrow> (\<exists>before. calls = before @ [Close h]))
      \<and> (\<forall>R1 calls1 h. mongodbTry env cs q R = (Throws e, R1, calls1)
            \<and> mongoClients R1 cs = Some h \<longrightarrow> calls = calls1 @ [Close h])
      \<and> pools R' = pools R
      \<and> (\<forall>k. k \<noteq> cs \<longrightarrow> mongoClients R' k = mongoClients R k)
      \<and> (\<forall>env'. \<exists>c R'' more. getMongoClient env' cs R' = (c, R'', NewMongoClient cs # more))
      \<and> (\<forall>env'. new_MongoClient env' cs = None \<longrightarrow>
            snd (snd (getMongoClient env' cs R'))
              = [NewMongoClient cs, Connect (MongoClient (allocated R'))]))
   \<and> (connectionString body = Some cs \<and> cs \<noteq> [] \<and> dbType body = None
       \<and> getDatabaseType cs = str ''mongodb''
       \<and> validateQuery (query body) (str ''mongodb'') = Inr v
       \<and> queryRoute env body R = (Some r, R2, calls2) \<and> status r \<noteq> 200
      \<longrightarrow> mongoClients R2 cs = None)"
proof (intro conjI impI allI)
  fix client
  assume t: "mongodbTry env cs q R = (Throws e, R1, calls1)"
    and c: "mongoClients R1 cs = Some client"
  show m: "mongodbCase env cs q R
      = (Throws e, R1\<lparr>mongoClients := (mongoClients R1)(cs := None)\<rparr>, calls1 @ [Close client])"
    if "client_close env client \<noteq> Never"
    using t c that by (rule mongodbCase_catch(1))
  show "snd (snd (getMongoClient env' cs (fst (snd (mongodbCase env cs q R)))))
      = [NewMongoClient cs, Connect (MongoClient (allocated R1))]"
    if "client_close env client \<noteq> Never" "new_MongoClient env' cs = None" for env'
    using that(2)
    by (auto simp: m [OF that(1)] getMongoClient_unfold Let_def split: completion.splits)
  show "mongodbCase env cs q R = (Pending, R1, calls1 @ [Close client])"
    if "client_close env client = Never"
    using t c that by (rule mongodbCase_catch(2))
next
  assume "mongodbTry env cs q R = (Throws e, R1, calls1)" and "mongoClients R1 cs = None"
  then show "mongodbCase env cs q R = (Throws e, R1, calls1)" by (rule mongodbCase_catch(3))
next
  assume c: "mongoClients R cs = Some client"
  show g: "getMongoClient env cs R = (Returns client, R, [])"
    using c by (simp add: getMongoClient_unfold)
  show "mongodbTry env cs q R = (Throws e, R, [])"
    if "parseMongoQuery (JSON_parse env) q = Inl e"
    using that by (simp add: mongodbTry_def g)
  show "mongodbTry env cs q R
      = (Throws e, R, [GetCollection client (field mq (str ''collection''))])"
    if "parseMongoQuery (JSON_parse env) q = Inr mq"
      "db_collection env client (field mq (str ''collection'')) = Some e" for mq
    using that by (simp add: mongodbTry_def g Let_def)
  show "mongodbTry env cs q R
      = (Throws e, R, GetCollection client (field mq (str ''collection'')) # calls2)"
    if "parseMongoQuery (JSON_parse env) q = Inr mq"
      "db_collection env client (field mq (str ''collection'')) = None
         \<and> mongoOperation env client mq = (Throws e, calls2)" for mq calls2
    using that by (simp add: mongodbTry_def g Let_def)
next
  assume a: "connectionString body = Some cs \<and> cs \<noteq> [] \<and> dbType body = None
       \<and> getDatabaseType cs = str ''mongodb''
       \<and> validateQuery (query body) (str ''mongodb'') = Inr q
       \<and> mongodbTry env cs q R = (Throws e, R1, calls1)
       \<and> mongoClients R1 cs = Some client \<and> client_close env client \<noteq> Never"
  then have m: "mongodbCase env cs q R
      = (Throws e, R1\<lparr>mongoClients := (mongoClients R1)(cs := None)\<rparr>, calls1 @ [Close client])"
    by (intro mongodbCase_catch(1)) simp_all
  from a have "queryRoute env body R =
     (case mongodbCase env cs q R of
        (Returns r, R1, calls) \<Rightarrow> (Some r, R1, calls)
      | (Throws error, R1, calls) \<Rightarrow> (Some (errorReply env error), R1, calls)
      | (Pending, R1, calls) \<Rightarrow> (None, R1, calls))"
    by (intro queryRoute_mongodb) simp_all
  then show "queryRoute env body R
      = (Some (errorReply env e), R1\<lparr>mongoClients := (mongoClients R1)(cs := None)\<rparr>,
         calls1 @ [Close client])"
    by (simp add: m)
next
  assume th: "mongodbCase env cs q R = (Throws e, R', calls)"
  note old = mongodb_throw_leaves_no_client [THEN conjunct1, THEN mp, OF th]
  show "mongoClients R' cs = None" using old by (rule conjunct1)
  show "\<And>h. mongoClients R cs = Some h \<Longrightarrow> \<exists>before. calls = before @ [Close h]"
    using old by blast
  show "\<And>R1 calls1 h. mongodbTry env cs q R = (Throws e, R1, calls1)
            \<and> mongoClients R1 cs = Some h \<Longrightarrow> calls = calls1 @ [Close h]"
    using old by blast
  show "pools R' = pools R" using old by blast
  show "\<And>k. k \<noteq> cs \<Longrightarrow> mongoClients R' k = mongoClients R k" using old by blast
  show "\<And>env'. \<exists>c R'' more. getMongoClient env' cs R' = (c, R'', NewMongoClient cs # more)"
    using old by blast
  show "\<And>env'. new_MongoClient env' cs = None \<Longrightarrow>
            snd (snd (getMongoClient env' cs R'))
              = [NewMongoClient cs, Connect (MongoClient (allocated R'))]"
    using old by blast
next
  assume "connectionString body = Some cs \<and> cs \<noteq> [] \<and> dbType body = None
       \<and> getDatabaseType cs = str ''mongodb''
       \<and> validateQuery (query body) (str ''mongodb'') = Inr v
       \<and> queryRoute env body R = (Some r, R2, calls2) \<and> status r \<noteq> 200"
  then show "mongoClients R2 cs = None"
    by (rule mongodb_throw_leaves_no_client [THEN conjunct2, THEN mp])
qed

theorem mongodb_error_evicts_witness:
  \<open>mongodbCase sample_env (str ''mongodb://h/db'') (str ''not json'')
      \<lparr>pools = Map.empty, mongoClients = [str ''mongodb://h/db'' \<mapsto> MongoClient 7],
       allocated = 8\<rparr>
     = (Throws (Error (str ''Invalid MongoDB query format: Expected valid JSON'')),
        \<lparr>pools = Map.empty, mongoClients = Map.empty, allocated = 8\<rparr>,
        [Close (MongoClient 7)])
   \<and> snd (snd (getMongoClient sample_env (str ''mongodb://h/db'')
        (fst (snd (mongodbCase sample_env (str ''mongodb://h/db'') (str ''not json'')
           \<lparr>pools = Map.empty, mongoClients = [str ''mongodb://h/db'' \<mapsto> MongoClient 7],
            allocated = 8\<rparr>)))))
     = [NewMongoClient (str ''mongodb://h/db''), Connect (MongoClient 8)]
   \<and> mongodbCase stalled_env (str ''mongodb://h/db'') (str ''{"collection":"users"}'')
      \<lparr>pools = Map.empty, mongoClients = [str ''mongodb://h/db'' \<mapsto> MongoClient 7],
       allocated = 8\<rparr>
     = (Throws (Error (str ''MongoDB query timeout'')),
        \<lparr>pools = Map.empty, mongoClients = Map.empty, allocated = 8\<rparr>,
        [GetCollection (MongoClient 7) (JStr (str ''users'')),
         Call (MongoClient 7) (Find (JStr (str ''users'')) (JObj []) (Some 100)),
         Close (MongoClient 7)])
   \<and> queryRoute sample_env
        \<lparr>connectionString = Some (str ''mongodb://h/db''), query = JStr (str ''not json''),
         dbType = None\<rparr>
        \<lparr>pools = Map.empty, mongoClients = [str ''mongodb://h/db'' \<mapsto> MongoClient 7],
         allocated = 8\<rparr>
     = (Some (errorReply sample_env
          (Error (str ''Invalid MongoDB query format: Expected valid JSON''))),
        \<lparr>pools = Map.empty, mongoClients = Map.empty, allocated = 8\<rparr>,
        [Close (MongoClient 7)])\<close>
proof -
  let ?cs = "str ''mongodb://h/db''"
  let ?bad = "str ''not json''"
  let ?find = \<open>str ''{"collection":"users"}''\<close>
  let ?mq = "[(str ''collection'', JStr (str ''users''))]"
  let ?client = "MongoClient 7"
  let ?R = "\<lparr>pools = Map.empty, mongoClients = [?cs \<mapsto> ?client], allocated = 8\<rparr>"
  let ?R' = "\<lparr>pools = Map.empty, mongoClients = Map.empty, allocated = 8\<rparr>"
  let ?e = "Error (str ''Invalid MongoDB query format: Expected valid JSON'')"
  let ?late = "Error (str ''MongoDB query timeout'')"
  let ?find_calls = "[Call ?client (Find (JStr (str ''users'')) (JObj []) (Some 100))]"
  let ?body = "\<lparr>connectionString = Some ?cs, query = JStr ?bad, dbType = None\<rparr>"
  have cached: "mongoClients ?R ?cs = Some ?client" by simp
  have evicted: "?R\<lparr>mongoClients := (mongoClients ?R)(?cs := None)\<rparr> = ?R'" by simp
  have p: "parseMongoQuery (JSON_parse sample_env) ?bad = Inl ?e"
    by (simp add: parseMongoQuery_def sample_parse_def)
  have v: "validateQuery (JStr ?bad) t = Inr ?bad" for t
    by (simp add: validateQuery_def trim_def isWhiteSpace_def str_def)
  have closes: "client_close sample_env ?client \<noteq> Never"
    and closes': "client_close stalled_env ?client \<noteq> Never" by simp_all
  note parse = mongodb_error_evicts [where env = sample_env and cs = ?cs and q = ?bad and R = ?R
      and e = ?e and ?R1.0 = ?R and ?calls1.0 = "[]" and client = ?client and body = ?body]
  have t1: "mongodbTry sample_env ?cs ?bad ?R = (Throws ?e, ?R, [])"
    by (rule parse [THEN conjunct2, THEN conjunct1, THEN mp, OF cached, THEN conjunct2,
          THEN conjunct1, THEN mp, OF p])
  note caught = parse [THEN conjunct1, THEN mp, OF t1, THEN conjunct1, THEN spec, THEN mp,
      OF cached, THEN conjunct1, THEN mp, OF closes]
  have m1: "mongodbCase sample_env ?cs ?bad ?R = (Throws ?e, ?R', [Close ?client])"
    using caught [THEN conjunct1] by simp
  have n1: "snd (snd (getMongoClient sample_env ?cs (fst (snd (mongodbCase sample_env ?cs ?bad ?R)))))
      = [NewMongoClient ?cs, Connect (MongoClient 8)]"
    using caught [THEN conjunct2, THEN spec, of sample_env] by simp
  have hyp: "connectionString ?body = Some ?cs \<and> ?cs \<noteq> [] \<and> dbType ?body = None
       \<and> getDatabaseType ?cs = str ''mongodb''
       \<and> validateQuery (query ?body) (str ''mongodb'') = Inr ?bad
       \<and> mongodbTry sample_env ?cs ?bad ?R = (Throws ?e, ?R, [])
       \<and> mongoClients ?R ?cs = Some ?client \<and> client_close sample_env ?client \<noteq> Never"
    by (simp add: getDatabaseType_mongodb v t1)
  have route: "queryRoute sample_env ?body ?R = (Some (errorReply sample_env ?e), ?R', [Close ?client])"
    using parse [THEN conjunct2, THEN conjunct2, THEN conjunct1, THEN mp, OF hyp] by simp
  note driver = mongodb_error_evicts [where env = stalled_env and cs = ?cs and q = ?find and R = ?R
      and e = ?late and ?R1.0 = ?R
      and ?calls1.0 = "GetCollection ?client (field ?mq (str ''collection'')) # ?find_calls"
      and client = ?client]
  have q: "parseMongoQuery (JSON_parse stalled_env) ?find = Inr ?mq"
    by (simp add: parse_find)
  have op: "db_collection stalled_env ?client (field ?mq (str ''collection'')) = None
      \<and> mongoOperation stalled_env ?client ?mq = (Throws ?late, ?find_calls)"
    by (simp add: mongoOperation_stalled)
  have t2: "mongodbTry stalled_env ?cs ?find ?R
      = (Throws ?late, ?R, GetCollection ?client (field ?mq (str ''collection'')) # ?find_calls)"
    by (rule driver [THEN conjunct2, THEN conjunct1, THEN mp, OF cached, THEN conjunct2,
          THEN conjunct2, THEN spec, THEN mp, OF q, THEN conjunct2, THEN spec, THEN mp, OF op])
  have m2: "mongodbCase stalled_env ?cs ?find ?R
      = (Throws ?late, ?R',
         [GetCollection ?client (JStr (str ''users'')),
          Call ?client (Find (JStr (str ''users'')) (JObj []) (Some 100)), Close ?client])"
    using driver [THEN conjunct1, THEN mp, OF t2, THEN conjunct1, THEN spec, THEN mp,
      OF cached, THEN conjunct1, THEN mp, OF closes', THEN conjunct1]
    by (simp add: field_def)
  from m1 n1 m2 route show ?thesis by (intro conjI)
qed

subsection \<open>The connection registry\<close>

lemma after_pools:
  assumes "pools R cs = Some h"
  shows "pools (after c R) cs = Some h"
proof (cases c)
  case (Pair env l)
  with assms show ?thesis
    by (cases l)
       (auto simp: getPostgresPool_def getMySQLPool_def getMongoClient_unfold closeMongoClient_def
          Let_def split: option.splits completion.splits)
qed

lemma after_all_pools:
  "pools R cs = Some h \<Longrightarrow> pools (after_all ops R) cs = Some h"
  unfolding after_all_def
  by (induction ops arbitrary: R) (simp_all add: after_pools)

lemma after_mongoClients:
  assumes "mongoClients R cs = Some h" and "EvictMongo cs \<noteq> snd c"
  shows "mongoClients (after c R) cs = Some h"
proof (cases c)
  case (Pair env l)
  with assms show ?thesis
    by (cases l)
       (auto simp: getPostgresPool_def getMySQLPool_def getMongoClient_unfold closeMongoClient_def
          Let_def split: option.splits completion.splits)
qed

lemma after_all_mongoClients:
  "mongoClients R cs = Some h \<Longrightarrow> EvictMongo cs \<notin> snd ` set ops
     \<Longrightarrow> mongoClients (after_all ops R) cs = Some h"
  unfolding after_all_def
  by (induction ops arbitrary: R) (simp_all add: after_mongoClients)

text \<open>
  Lookups made one after the other. A lookup for a string that is not cached creates a
  handle, caches it and returns it (for MongoDB after \<^verbatim>\<open>connect()\<close> has succeeded).
  Once a string is cached, every later lookup of the same kind, in any environment and
  after any run of other registry calls, returns that same handle, makes no driver call
  and leaves the registry as it is; for MongoDB the run must not evict that string, and
  \<open>closeMongoClient\<close> is what removes it. When the constructor throws, or MongoDB's
  \<^verbatim>\<open>connect()\<close> rejects, the error is passed on and the maps are unchanged. PostgreSQL and
  MySQL share one map, so each of the two lookups returns whatever handle the string is
  cached with.
\<close>

lemma registry_sequential:
  "(pools R cs = None \<and> new_Pool env cs = None \<longrightarrow>
      (\<exists>R'. getPostgresPool env cs R = (Inr (PostgresPool (allocated R)), R', [NewPool cs])
            \<and> pools R' cs = Some (PostgresPool (allocated R))))
   \<and> (pools R cs = None \<and> createPool env cs = None \<longrightarrow>
      (\<exists>R'. getMySQLPool env cs R = (Inr (MySQLPool (allocated R)), R', [CreatePool cs])
            \<and> pools R' cs = Some (MySQLPool (allocated R))))
   \<and> (mongoClients R cs = None \<and> new_MongoClient env cs = None
       \<and> client_connect env (MongoClient (allocated R)) = Settles t (Inr ()) \<longrightarrow>
      (\<exists>R'. getMongoClient env cs R =
              (Returns (MongoClient (allocated R)), R',
               [NewMongoClient cs, Connect (MongoClient (allocated R))])
            \<and> mongoClients R' cs = Some (MongoClient (allocated R))))
   \<and> (pools R cs = Some h \<longrightarrow>
      getPostgresPool env' cs (after_all ops R) = (Inr h, after_all ops R, [])
      \<and> getMySQLPool env' cs (after_all ops R) = (Inr h, after_all ops R, []))
   \<and> (mongoClients R cs = Some h \<and> EvictMongo cs \<notin> snd ` set ops \<longrightarrow>
      getMongoClient env' cs (after_all ops R) = (Returns h, after_all ops R, []))
   \<and> (pools R cs = None \<and> new_Pool env cs = Some e \<longrightarrow>
      getPostgresPool env cs R = (Inl e, R, [NewPool cs]))
   \<and> (pools R cs = None \<and> createPool env cs = Some e \<longrightarrow>
      getMySQLPool env cs R = (Inl e, R, [CreatePool cs]))
   \<and> (mongoClients R cs = None \<and> new_MongoClient env cs = Some e \<longrightarrow>
      getMongoClient env cs R = (Throws e, R, [NewMongoClient cs]))
   \<and> (mongoClients R cs = None \<and> new_MongoClient env cs = None
       \<and> client_connect env (MongoClient (allocated R)) = Settles t (Inl e) \<longrightarrow>
      (\<exists>R'. getMongoClient env cs R =
              (Throws e, R', [NewMongoClient cs, Connect (MongoClient (allocated R))])
            \<and> mongoClients R' = mongoClients R \<and> pools R' = pools R))
   \<and> (mongoClients R cs = Some h \<and> client_close env h \<noteq> Never \<longrightarrow>
      (\<exists>R'. closeMongoClient env cs R = (Returns (), R', [Close h])
            \<and> mongoClients R' cs = None))"
proof -
  have first_pg: "\<exists>R'. getPostgresPool env cs R = (Inr (PostgresPool (allocated R)), R', [NewPool cs])
            \<and> pools R' cs = Some (PostgresPool (allocated R))"
    if "pools R cs = None \<and> new_Pool env cs = None"
    using that by (simp add: getPostgresPool_def Let_def)
  have first_my: "\<exists>R'. getMySQLPool env cs R = (Inr (MySQLPool (allocated R)), R', [CreatePool cs])
            \<and> pools R' cs = Some (MySQLPool (allocated R))"
    if "pools R cs = None \<and> createPool env cs = None"
    using that by (simp add: getMySQLPool_def Let_def)
  have first_mongo: "\<exists>R'. getMongoClient env cs R =
              (Returns (MongoClient (allocated R)), R',
               [NewMongoClient cs, Connect (MongoClient (allocated R))])
            \<and> mongoClients R' cs = Some (MongoClient (allocated R))"
    if "mongoClients R cs = None \<and> new_MongoClient env cs = None
       \<and> client_connect env (MongoClient (allocated R)) = Settles t (Inr ())"
    using that by (simp add: getMongoClient_unfold Let_def)
  have again_pools: "getPostgresPool env' cs (after_all ops R) = (Inr h, after_all ops R, [])
      \<and> getMySQLPool env' cs (after_all ops R) = (Inr h, after_all ops R, [])"
    if "pools R cs = Some h"
    using after_all_pools [OF that, of ops]
    by (simp add: getPostgresPool_def getMySQLPool_def)
  have again_mongo: "getMongoClient env' cs (after_all ops R) = (Returns h, after_all ops R, [])"
    if "mongoClients R cs = Some h \<and> EvictMongo cs \<notin> snd ` set ops"
    using after_all_mongoClients [of R cs h ops] that
    by (simp add: getMongoClient_unfold)
  have fail_pg: "getPostgresPool env cs R = (Inl e, R, [NewPool cs])"
    if "pools R cs = None \<and> new_Pool env cs = Some e"
    using that by (simp add: getPostgresPool_def)
  have fail_my: "getMySQLPool env cs R = (Inl e, R, [CreatePool cs])"
    if "pools R cs = None \<and> createPool env cs = Some e"
    using that by (simp add: getMySQLPool_def)
  have fail_new: "getMongoClient env cs R = (Throws e, R, [NewMongoClient cs])"
    if "mongoClients R cs = None \<and> new_MongoClient env cs = Some e"
    using that by (simp add: getMongoClient_unfold)
  have fail_connect: "\<exists>R'. getMongoClient env cs R =
              (Throws e, R', [NewMongoClient cs, Connect (MongoClient (allocated R))])
            \<and> mongoClients R' = mongoClients R \<and> pools R' = pools R"
    if "mongoClients R cs = None \<and> new_MongoClient env cs = None
       \<and> client_connect env (MongoClient (allocated R)) = Settles t (Inl e)"
    using that by (simp add: getMongoClient_unfold Let_def)
  have evict: "\<exists>R'. closeMongoClient env cs R = (Returns (), R', [Close h])
            \<and> mongoClients R' cs = None"
    if "mongoClients R cs = Some h \<and> client_close env h \<noteq> Never"
    using that by (cases "await (client_close env h)")
      (auto simp: closeMongoClient_def elim: await.elims)
  from first_pg first_my first_mongo again_pools again_mongo fail_pg fail_my fail_new
    fail_connect evict
  show ?thesis by blast
qed

lemma registry_sequential_example:
  "(\<exists>R'. getPostgresPool sample_env (str ''postgres://h/db'') empty_registry
           = (Inr (PostgresPool 0), R', [NewPool (str ''postgres://h/db'')])
         \<and> pools R' (str ''postgres://h/db'') = Some (PostgresPool 0))
   \<and> (\<exists>R'. getMySQLPool sample_env (str ''mysql://h/db'') empty_registry
           = (Inr (MySQLPool 0), R', [CreatePool (str ''mysql://h/db'')])
         \<and> pools R' (str ''mysql://h/db'') = Some (MySQLPool 0))
   \<and> (\<exists>R'. getMongoClient sample_env (str ''mongodb://h/db'') empty_registry
           = (Returns (MongoClient 0), R',
              [NewMongoClient (str ''mongodb://h/db''), Connect (MongoClient 0)])
         \<and> mongoClients R' (str ''mongodb://h/db'') = Some (MongoClient 0))
   \<and> getPostgresPool stalled_env (str ''postgres://h/db'')
        (after_all [(sample_env, LookupMySQL (str ''mysql://h/db'')),
                    (sample_env, LookupMongo (str ''mongodb://h/db'')),
                    (sample_env, EvictMongo (str ''mongodb://h/db''))]
           \<lparr>pools = [str ''postgres://h/db'' \<mapsto> PostgresPool 0], mongoClients = Map.empty,
            allocated = 1\<rparr>)
       = (Inr (PostgresPool 0),
          after_all [(sample_env, LookupMySQL (str ''mysql://h/db'')),
                     (sample_env, LookupMongo (str ''mongodb://h/db'')),
                     (sample_env, EvictMongo (str ''mongodb://h/db''))]
            \<lparr>pools = [str ''postgres://h/db'' \<mapsto> PostgresPool 0], mongoClients = Map.empty,
             allocated = 1\<rparr>, [])
   \<and> getMongoClient stalled_env (str ''mongodb://h/db'')
        (after_all [(sample_env, LookupPostgres (str ''postgres://h/db'')),
                    (sample_env, EvictMongo (str ''mongodb://other/db''))]
           \<lparr>pools = Map.empty, mongoClients = [str ''mongodb://h/db'' \<mapsto> MongoClient 0],
            allocated = 1\<rparr>)
       = (Returns (MongoClient 0),
          after_all [(sample_env, LookupPostgres (str ''postgres://h/db'')),
                     (sample_env, EvictMongo (str ''mongodb://other/db''))]
            \<lparr>pools = Map.empty, mongoClients = [str ''mongodb://h/db'' \<mapsto> MongoClient 0],
             allocated = 1\<rparr>, [])
   \<and> getPostgresPool (sample_env\<lparr>new_Pool := \<lambda>s. Some (Error (str ''invalid connection string''))\<rparr>)
        (str ''postgres://h/db'') empty_registry
       = (Inl (Error (str ''invalid connection string'')), empty_registry,
          [NewPool (str ''postgres://h/db'')])
   \<and> getMySQLPool (sample_env\<lparr>createPool := \<lambda>s. Some (Error (str ''invalid connection string''))\<rparr>)
        (str ''mysql://h/db'') empty_registry
       = (Inl (Error (str ''invalid connection string'')), empty_registry,
          [CreatePool (str ''mysql://h/db'')])
   \<and> getMongoClient (sample_env\<lparr>new_MongoClient := \<lambda>s. Some (Error (str ''invalid scheme''))\<rparr>)
        (str ''mongodb://h/db'') empty_registry
       = (Throws (Error (str ''invalid scheme'')), empty_registry,
          [NewMongoClient (str ''mongodb://h/db'')])
   \<and> (\<exists>R'. getMongoClient
           (sample_env\<lparr>client_connect := \<lambda>h. Settles 3 (Inl (Error (str ''connect ECONNREFUSED'')))\<rparr>)
           (str ''mongodb://h/db'') empty_registry
          = (Throws (Error (str ''connect ECONNREFUSED'')), R',
             [NewMongoClient (str ''mongodb://h/db''), Connect (MongoClient 0)])
         \<and> mongoClients R' = mongoClients empty_registry \<and> pools R' = pools empty_registry)
   \<and> (\<exists>R'. closeMongoClient sample_env (str ''mongodb://h/db'')
           \<lparr>pools = Map.empty, mongoClients = [str ''mongodb://h/db'' \<mapsto> MongoClient 0],
            allocated = 1\<rparr>
          = (Returns (), R', [Close (MongoClient 0)])
         \<and> mongoClients R' (str ''mongodb://h/db'') = None)"
proof -
  let ?pg = "str ''postgres://h/db''"
  let ?my = "str ''mysql://h/db''"
  let ?mg = "str ''mongodb://h/db''"
  let ?R1 = "\<lparr>pools = [?pg \<mapsto> PostgresPool 0], mongoClients = Map.empty, allocated = 1\<rparr>"
  let ?Rm = "\<lparr>pools = Map.empty, mongoClients = [?mg \<mapsto> MongoClient 0], allocated = 1\<rparr>"
  let ?ops1 = "[(sample_env, LookupMySQL ?my), (sample_env, LookupMongo ?mg),
                (sample_env, EvictMongo ?mg)]"
  let ?ops2 = "[(sample_env, LookupPostgres ?pg), (sample_env, EvictMongo (str ''mongodb://other/db''))]"
  let ?bad = "sample_env\<lparr>new_Pool := \<lambda>s. Some (Error (str ''invalid connection string''))\<rparr>"
  let ?badmy = "sample_env\<lparr>createPool := \<lambda>s. Some (Error (str ''invalid connection string''))\<rparr>"
  let ?badnew = "sample_env\<lparr>new_MongoClient := \<lambda>s. Some (Error (str ''invalid scheme''))\<rparr>"
  let ?refused = "sample_env\<lparr>client_connect :=
      \<lambda>h. Settles 3 (Inl (Error (str ''connect ECONNREFUSED'')))\<rparr>"
  have h1: "pools empty_registry ?pg = None \<and> new_Pool sample_env ?pg = None"
    by (simp add: empty_registry_def)
  have h2: "pools empty_registry ?my = None \<and> createPool sample_env ?my = None"
    by (simp add: empty_registry_def)
  have h3: "mongoClients empty_registry ?mg = None \<and> new_MongoClient sample_env ?mg = None
      \<and> client_connect sample_env (MongoClient (allocated empty_registry)) = Settles 1 (Inr ())"
    by (simp add: empty_registry_def)
  have h4: "pools ?R1 ?pg = Some (PostgresPool 0)" by simp
  have h5: "mongoClients ?Rm ?mg = Some (MongoClient 0) \<and> EvictMongo ?mg \<notin> snd ` set ?ops2"
    by simp
  have h6: "pools empty_registry ?pg = None
      \<and> new_Pool ?bad ?pg = Some (Error (str ''invalid connection string''))"
    by (simp add: empty_registry_def)
  have h7: "pools empty_registry ?my = None
      \<and> createPool ?badmy ?my = Some (Error (str ''invalid connection string''))"
    by (simp add: empty_registry_def)
  have h8: "mongoClients empty_registry ?mg = None
      \<and> new_MongoClient ?badnew ?mg = Some (Error (str ''invalid scheme''))"
    by (simp add: empty_registry_def)
  have h9: "mongoClients empty_registry ?mg = None \<and> new_MongoClient ?refused ?mg = None
      \<and> client_connect ?refused (MongoClient (allocated empty_registry))
          = Settles 3 (Inl (Error (str ''connect ECONNREFUSED'')))"
    by (simp add: empty_registry_def)
  have h10: "mongoClients ?Rm ?mg = Some (MongoClient 0)
      \<and> client_close sample_env (MongoClient 0) \<noteq> Never"
    by simp
  have zero: "allocated empty_registry = 0" by (simp add: empty_registry_def)
  note c1 = registry_sequential [where R = empty_registry and cs = ?pg and env = sample_env,
      THEN conjunct1, THEN mp, OF h1, unfolded zero]
  note c2 = registry_sequential [where R = empty_registry and cs = ?my and env = sample_env,
      THEN conjunct2, THEN conjunct1, THEN mp, OF h2, unfolded zero]
  note c3 = registry_sequential [where R = empty_registry and cs = ?mg and env = sample_env
      and t = 1,
      THEN conjunct2, THEN conjunct2, THEN conjunct1, THEN mp, OF h3, unfolded zero]
  note c4 = registry_sequential [where R = ?R1 and cs = ?pg and h = "PostgresPool 0"
      and env' = stalled_env and ops = ?ops1,
      THEN conjunct2, THEN conjunct2, THEN conjunct2, THEN conjunct1, THEN mp, OF h4,
      THEN conjunct1]
  note c5 = registry_sequential [where R = ?Rm and cs = ?mg and h = "MongoClient 0"
      and env' = stalled_env and ops = ?ops2,
      THEN conjunct2, THEN conjunct2, THEN conjunct2, THEN conjunct2, THEN conjunct1,
      THEN mp, OF h5]
  note c6 = registry_sequential [where R = empty_registry and cs = ?pg and env = ?bad
      and e = "Error (str ''invalid connection string'')",
      THEN conjunct2, THEN conjunct2, THEN conjunct2, THEN conjunct2, THEN conjunct2,
      THEN conjunct1, THEN mp, OF h6]
  note c7 = registry_sequential [where R = empty_registry and cs = ?my and env = ?badmy
      and e = "Error (str ''invalid connection string'')",
      THEN conjunct2, THEN conjunct2, THEN conjunct2, THEN conjunct2, THEN conjunct2,
      THEN conjunct2, THEN conjunct1, THEN mp, OF h7]
  note c8 = registry_sequential [where R = empty_registry and cs = ?mg and env = ?badnew
      and e = "Error (str ''invalid scheme'')",
      THEN conjunct2, THEN conjunct2, THEN conjunct2, THEN conjunct2, THEN conjunct2,
      THEN conjunct2, THEN conjunct2, THEN conjunct1, THEN mp, OF h8]
  note c9 = registry_sequential [where R = empty_registry and cs = ?mg and env = ?refused
      and t = 3 and e = "Error (str ''connect ECONNREFUSED'')",
      THEN conjunct2, THEN conjunct2, THEN conjunct2, THEN conjunct2, THEN conjunct2,
      THEN conjunct2, THEN conjunct2, THEN conjunct2, THEN conjunct1, THEN mp, OF h9,
      unfolded zero]
  note c10 = registry_sequential [where R = ?Rm and cs = ?mg and h = "MongoClient 0"
      and env = sample_env,
      THEN conjunct2, THEN conjunct2, THEN conjunct2, THEN conjunct2, THEN conjunct2,
      THEN conjunct2, THEN conjunct2, THEN conjunct2, THEN conjunct2, THEN mp, OF h10]
  from c1 c2 c3 c4 c5 c6 c7 c8 c9 c10 show ?thesis by (intro conjI)
qed

text \<open>
  C3 holds for lookups that do not overlap (\<open>registry_sequential\<close> above), and so for
  PostgreSQL and MySQL, whose lookups have no suspension point. It fails for MongoDB
  lookups that overlap: when a second request looks up an uncached string while the first
  is still waiting for \<^verbatim>\<open>connect()\<close>, each of the two creates and connects a client of
  its own, the two lookups return different instances, and the second \<^verbatim>\<open>set\<close> replaces
  the client the first one cached, which is never closed. (The second \<^verbatim>\<open>connect()\<close> is
  started after the first; when it takes at least as long, the first lookup is the one that
  resumes first.)
\<close>

theorem overlapping_lookups_diverge:
  assumes "mongoClients R cs = None" and "new_MongoClient env cs = None"
    and "client_connect env (MongoClient (allocated R)) = Settles t1 (Inr ())"
    and "client_connect env (MongoClient (Suc (allocated R))) = Settles t2 (Inr ())"
    and "t1 \<le> t2"
  shows "\<exists>R'. overlappingLookups env cs R =
           (Returns (MongoClient (allocated R)), Returns (MongoClient (Suc (allocated R))), R',
            [NewMongoClient cs, Connect (MongoClient (allocated R)),
             NewMongoClient cs, Connect (MongoClient (Suc (allocated R)))])
         \<and> mongoClients R' cs = Some (MongoClient (Suc (allocated R)))
         \<and> MongoClient (allocated R) \<noteq> MongoClient (Suc (allocated R))"
  using assms
  by (simp add: overlappingLookups_def getMongoClient_start_def getMongoClient_resume_def Let_def)

theorem overlapping_lookups_diverge_witness:
  "overlappingLookups sample_env (str ''mongodb://h/db'') empty_registry =
     (Returns (MongoClient 0), Returns (MongoClient 1),
      \<lparr>pools = Map.empty, mongoClients = [str ''mongodb://h/db'' \<mapsto> MongoClient 1],
       allocated = 2\<rparr>,
      [NewMongoClient (str ''mongodb://h/db''), Connect (MongoClient 0),
       NewMongoClient (str ''mongodb://h/db''), Connect (MongoClient 1)])
   \<and> MongoClient 0 \<noteq> MongoClient 1"
proof -
  let ?cs = "str ''mongodb://h/db''"
  have h1: "mongoClients empty_registry ?cs = None" by (simp add: empty_registry_def)
  have h2: "new_MongoClient sample_env ?cs = None" by simp
  have h3: "client_connect sample_env (MongoClient (allocated empty_registry)) = Settles 1 (Inr ())"
    by simp
  have h4: "client_connect sample_env (MongoClient (Suc (allocated empty_registry)))
      = Settles 1 (Inr ())"
    by simp
  have run: "overlappingLookups sample_env ?cs empty_registry =
     (Returns (MongoClient 0), Returns (MongoClient 1),
      \<lparr>pools = Map.empty, mongoClients = [?cs \<mapsto> MongoClient 1], allocated = 2\<rparr>,
      [NewMongoClient ?cs, Connect (MongoClient 0), NewMongoClient ?cs, Connect (MongoClient 1)])"
    by (simp add: overlappingLookups_def getMongoClient_start_def getMongoClient_resume_def
        Let_def empty_registry_def)
  have h5: "(1::nat) \<le> 1" by simp
  from overlapping_lookups_diverge [OF h1 h2 h3 h4 h5]
  have "MongoClient (allocated empty_registry) \<noteq> MongoClient (Suc (allocated empty_registry))"
    by blast
  then have "MongoClient 0 \<noteq> MongoClient 1" by (simp add: empty_registry_def)
  with run show ?thesis by blast
qed

end
